theory Spec2Isabelle
  imports Complex_Main
begin

chapter \<open>The agents of elegantrl/agent.py\<close>

section \<open>Tensors, networks and Python errors\<close>

text \<open>
  The agents of \<^verbatim>\<open>elegantrl/agent.py\<close> compute with torch tensors and numpy arrays.
  A tensor is modelled as the list of its entries and its arithmetic is taken over the
  reals (exact arithmetic: rounding of the 32-bit floats is not part of the model).
  The parameter set of a network (\<^verbatim>\<open>net.parameters()\<close>) is the list of its
  parameter tensors.  The architectures themselves live in \<^verbatim>\<open>elegantrl/net.py\<close>,
  which is not part of the sources, so every forward evaluation is a function taken
  as a parameter.
\<close>

type_synonym tensor = "real list"
type_synonym params = "tensor list"

datatype py_error = ZeroDivisionError | AttributeError | IndexError | UnboundLocalError | TypeError

text \<open>A loop whose body may raise: it stops at the first error, with the state as the
  raising iteration leaves it.\<close>

fun for_loop :: "(nat \<Rightarrow> 'st \<Rightarrow> 'st \<times> py_error option) \<Rightarrow> nat list \<Rightarrow> 'st \<Rightarrow> 'st \<times> py_error option" where
  "for_loop body [] st = (st, None)"
| "for_loop body (i # rest) st =
     (case body i st of
        (st', Some e) \<Rightarrow> (st', Some e)
      | (st', None) \<Rightarrow> for_loop body rest st')"

subsection \<open>\<^verbatim>\<open>AgentBase.soft_update\<close>\<close>

text \<open>
  \<^verbatim>\<open>for tar, cur in zip(target_net.parameters(), current_net.parameters()):
      tar.data.copy_(cur.data * tau + tar.data * (1.0 - tau))\<close>

  The loop overwrites the data of each target tensor that \<^verbatim>\<open>zip\<close> pairs with an online
  tensor; a target tensor beyond the shorter list is left as it is.  The two tensors of a
  pair have the same shape (the target is a deep copy of the online network).
\<close>

definition blend :: "tensor \<Rightarrow> tensor \<Rightarrow> real \<Rightarrow> tensor" where
  "blend tar cur tau = map2 (\<lambda>c t. c * tau + t * (1.0 - tau)) cur tar"

fun soft_update :: "params \<Rightarrow> params \<Rightarrow> real \<Rightarrow> params" where
  "soft_update (tar # tars) (cur # curs) tau = blend tar cur tau # soft_update tars curs tau"
| "soft_update tars [] tau = tars"
| "soft_update [] curs tau = []"

text \<open>\<open>n\<close> consecutive calls with the online parameters held fixed.\<close>

fun soft_update_times :: "nat \<Rightarrow> params \<Rightarrow> params \<Rightarrow> real \<Rightarrow> params" where
  "soft_update_times 0 tars curs tau = tars"
| "soft_update_times (Suc n) tars curs tau = soft_update_times n (soft_update tars curs tau) curs tau"

definition same_shape :: "params \<Rightarrow> params \<Rightarrow> bool" where
  "same_shape tars curs = (map length tars = map length curs)"

subsection \<open>Optimizers and the agent's owned state\<close>

text \<open>
  An optimizer (\<^verbatim>\<open>torch.optim.Adam\<close>) owns a step counter and its moment estimates.
  \<^verbatim>\<open>optim_update(optimizer, objective)\<close> is \<^verbatim>\<open>zero_grad(); backward(); step()\<close>: the
  new parameters and moments come from the gradient of the objective, which the
  model takes from a parameter \<open>descend\<close>; the counter goes up by one.
\<close>

record optim =
  n_steps :: nat
  moments :: params

type_synonym 'o descend = "optim \<Rightarrow> 'o \<Rightarrow> params \<Rightarrow> params \<times> params"

definition optim_update :: "'o descend \<Rightarrow> optim \<Rightarrow> 'o \<Rightarrow> params \<Rightarrow> params \<times> optim" where
  "optim_update descend optimizer objective net =
     (let (net', m') = descend optimizer objective net
      in (net', optimizer\<lparr>n_steps := Suc (n_steps optimizer), moments := m'\<rparr>))"

record agent =
  if_use_per :: bool
  cri :: params
  cri_target :: params
  cri_optim :: optim
  act :: params
  act_target :: params
  act_optim :: optim

text \<open>The two call sites \<^verbatim>\<open>self.soft_update(self.cri_target, self.cri, tau)\<close> and
  \<^verbatim>\<open>self.soft_update(self.act_target, self.act, tau)\<close>.\<close>

definition soft_update_cri :: "real \<Rightarrow> ('a agent_scheme) \<Rightarrow> ('a agent_scheme)" where
  "soft_update_cri tau a = a\<lparr>cri_target := soft_update (cri_target a) (cri a) tau\<rparr>"

definition soft_update_act :: "real \<Rightarrow> ('a agent_scheme) \<Rightarrow> ('a agent_scheme)" where
  "soft_update_act tau a = a\<lparr>act_target := soft_update (act_target a) (act a) tau\<rparr>"

section \<open>\<^verbatim>\<open>AgentPPO\<close>: hyper-parameters, reward sums and advantages\<close>

text \<open>The hyper-parameters \<^verbatim>\<open>AgentPPO.__init__\<close> sets.\<close>

record ppo_hyper =
  ratio_clip :: real
  lambda_entropy :: real
  lambda_gae_adv :: real

definition AgentPPO_init :: ppo_hyper where
  "AgentPPO_init = \<lparr>ratio_clip = 0.2, lambda_entropy = 0.02, lambda_gae_adv = 0.98\<rparr>"

text \<open>
  \<^verbatim>\<open>get_reward_sum_gae(self, buf_len, ary_reward, ary_mask, ary_value)\<close>: the two result
  arrays are allocated with \<^verbatim>\<open>np.empty(buf_len)\<close> and every entry is written by the
  backward loop \<^verbatim>\<open>for i in range(buf_len - 1, -1, -1)\<close>.  \<open>gae_loop k\<close> runs the
  iterations \<open>i = k - 1, \<dots>, 0\<close>.  Reading an input array past its end raises
  \<^verbatim>\<open>IndexError\<close>; that happens in the first iteration, whose index is the largest.
\<close>

record gae_state =
  ary_r_sum :: "real list"
  ary_advantage :: "real list"
  pre_r_sum :: real
  pre_advantage :: real

definition gae_body :: "real \<Rightarrow> real list \<Rightarrow> real list \<Rightarrow> real list \<Rightarrow> nat \<Rightarrow> gae_state \<Rightarrow> gae_state" where
  "gae_body lam ary_reward ary_mask ary_value i s =
     (let r = ary_reward ! i + ary_mask ! i * pre_r_sum s;
          s1 = s\<lparr>ary_r_sum := (ary_r_sum s)[i := r]\<rparr>;
          s2 = s1\<lparr>pre_r_sum := ary_r_sum s1 ! i\<rparr>;
          a = ary_reward ! i + ary_mask ! i * (pre_advantage s2 - ary_value ! i);
          s3 = s2\<lparr>ary_advantage := (ary_advantage s2)[i := a]\<rparr>
      in s3\<lparr>pre_advantage := ary_value ! i + ary_advantage s3 ! i * lam\<rparr>)"

fun gae_loop :: "real \<Rightarrow> real list \<Rightarrow> real list \<Rightarrow> real list \<Rightarrow> nat \<Rightarrow> gae_state \<Rightarrow> gae_state" where
  "gae_loop lam ary_reward ary_mask ary_value 0 s = s"
| "gae_loop lam ary_reward ary_mask ary_value (Suc i) s =
     gae_loop lam ary_reward ary_mask ary_value i (gae_body lam ary_reward ary_mask ary_value i s)"

definition get_reward_sum_gae ::
  "ppo_hyper \<Rightarrow> nat \<Rightarrow> real list \<Rightarrow> real list \<Rightarrow> real list \<Rightarrow> py_error + (real list \<times> real list)" where
  "get_reward_sum_gae self buf_len ary_reward ary_mask ary_value =
     (if 0 < buf_len \<and> (length ary_reward < buf_len \<or> length ary_mask < buf_len
                         \<or> length ary_value < buf_len)
      then Inl IndexError
      else let s = gae_loop (lambda_gae_adv self) ary_reward ary_mask ary_value buf_len
                     \<lparr>ary_r_sum = replicate buf_len 0, ary_advantage = replicate buf_len 0,
                      pre_r_sum = 0, pre_advantage = 0\<rparr>
           in Inr (ary_r_sum s, ary_advantage s))"

text \<open>
  The recursion as the specification words it, for a buffer of length \<open>n\<close>:
  \<open>r_sum[i] = reward[i] + mask[i] * r_sum[i+1]\<close> with \<open>r_sum[n] = 0\<close>;
  \<open>advantage[i] = reward[i] + mask[i] * (prevAdvantage - value[i])\<close>, where
  \<open>prevAdvantage\<close> is 0 at first and \<open>value[i] + advantage[i] * lambda_gae\<close> once
  index \<open>i\<close> has been processed.
\<close>

function spec_r_sum :: "real list \<Rightarrow> real list \<Rightarrow> nat \<Rightarrow> nat \<Rightarrow> real" where
  "spec_r_sum reward msk n i =
     (if n \<le> i then 0 else reward ! i + msk ! i * spec_r_sum reward msk n (Suc i))"
  by pat_completeness auto
termination
  by (relation "measure (\<lambda>(reward, msk, n, i). n - i)") auto

function spec_prev_advantage :: "real \<Rightarrow> real list \<Rightarrow> real list \<Rightarrow> real list \<Rightarrow> nat \<Rightarrow> nat \<Rightarrow> real" where
  "spec_prev_advantage lam reward msk val n i =
     (if n \<le> i then 0
      else val ! i
           + (reward ! i + msk ! i * (spec_prev_advantage lam reward msk val n (Suc i) - val ! i)) * lam)"
  by pat_completeness auto
termination
  by (relation "measure (\<lambda>(lam, reward, msk, val, n, i). n - i)") auto

definition spec_advantage :: "real \<Rightarrow> real list \<Rightarrow> real list \<Rightarrow> real list \<Rightarrow> nat \<Rightarrow> nat \<Rightarrow> real" where
  "spec_advantage lam reward msk val n i =
     reward ! i + msk ! i * (spec_prev_advantage lam reward msk val n (Suc i) - val ! i)"

text \<open>The invariant of the backward loop: once the iterations \<open>n - 1, \<dots>, k\<close> have run, the
  entries from \<open>k\<close> on and the two running values are those of the recursion.\<close>

definition gae_inv :: "real \<Rightarrow> real list \<Rightarrow> real list \<Rightarrow> real list \<Rightarrow> nat \<Rightarrow> nat \<Rightarrow> gae_state \<Rightarrow> bool" where
  "gae_inv lam reward msk val n k s =
     (length (ary_r_sum s) = n \<and> length (ary_advantage s) = n
      \<and> pre_r_sum s = spec_r_sum reward msk n k
      \<and> pre_advantage s = spec_prev_advantage lam reward msk val n k
      \<and> (\<forall>i. k \<le> i \<and> i < n \<longrightarrow>
            ary_r_sum s ! i = spec_r_sum reward msk n i
            \<and> ary_advantage s ! i = spec_advantage lam reward msk val n i))"

section \<open>\<^verbatim>\<open>AgentPPO.explore_env\<close>: collecting and splicing a trajectory\<close>

text \<open>
  A transition is the tuple \<^verbatim>\<open>(state, reward, done, action, noise)\<close> the loop appends.
  The stochastic policy and the environment are collaborators outside the sources:
  \<open>io_select_action\<close> is \<^verbatim>\<open>self.select_action\<close> (it draws from a random source
  \<open>'g\<close>), \<open>io_step\<close> and \<open>io_reset\<close> are \<^verbatim>\<open>env.step\<close> and \<^verbatim>\<open>env.reset\<close> on the
  environment's own state \<open>'e\<close>.
\<close>

type_synonym 's transition = "'s \<times> real \<times> bool \<times> real list \<times> real list"

record ('s, 'e, 'g) ppo_io =
  io_select_action :: "'g \<Rightarrow> 's \<Rightarrow> (real list \<times> real list) \<times> 'g"
  io_step :: "'e \<Rightarrow> real list \<Rightarrow> ('s \<times> real \<times> bool) \<times> 'e"
  io_reset :: "'e \<Rightarrow> 's \<times> 'e"

text \<open>What the agent keeps between two calls: \<^verbatim>\<open>self.states\<close> and
  \<^verbatim>\<open>self.trajectory_list\<close> (one entry per environment).\<close>

record 's ppo_self =
  states :: "'s list"
  trajectory_list :: "'s transition list list"

record ('s, 'e, 'g) explore_state =
  trajectory_temp :: "'s transition list"
  ex_state :: 's
  last_done :: nat
  ex_env :: 'e
  ex_rng :: 'g

text \<open>One iteration of \<^verbatim>\<open>for i in range(target_step)\<close>.\<close>

definition explore_body ::
  "('s, 'e, 'g) ppo_io \<Rightarrow> nat \<Rightarrow> ('s, 'e, 'g) explore_state \<Rightarrow> ('s, 'e, 'g) explore_state" where
  "explore_body io i st =
     (let ((action, noise), g') = io_select_action io (ex_rng st) (ex_state st);
          ((next_state, reward, done), e') = io_step io (ex_env st) (map tanh action);
          temp' = trajectory_temp st @ [(ex_state st, reward, done, action, noise)]
      in if done
         then (let (s0, e'') = io_reset io e'
               in st\<lparr>trajectory_temp := temp', ex_state := s0, last_done := i, ex_env := e'', ex_rng := g'\<rparr>)
         else st\<lparr>trajectory_temp := temp', ex_state := next_state, ex_env := e', ex_rng := g'\<rparr>)"

text \<open>
  The whole call.  \<^verbatim>\<open>trajectory_temp[:last_done + 1]\<close> is \<open>take (last_done + 1)\<close> and
  \<^verbatim>\<open>trajectory_temp[last_done:]\<close> is \<open>drop last_done\<close>.  The result is the list
  returned for training, the agent's updated fields, and the environment and random
  source as the call leaves them.  Indexing an empty \<^verbatim>\<open>self.states\<close> or
  \<^verbatim>\<open>self.trajectory_list\<close> raises.
\<close>

definition explore_env ::
  "('s, 'e, 'g) ppo_io \<Rightarrow> 's ppo_self \<Rightarrow> 'e \<Rightarrow> 'g \<Rightarrow> nat
     \<Rightarrow> py_error + ('s transition list \<times> 's ppo_self \<times> 'e \<times> 'g)" where
  "explore_env io self e g target_step =
     (case states self of
        [] \<Rightarrow> Inl IndexError
      | s0 # others \<Rightarrow>
          (let st = fold (explore_body io) [0..<target_step]
                      \<lparr>trajectory_temp = [], ex_state = s0, last_done = 0, ex_env = e, ex_rng = g\<rparr>
           in case trajectory_list self of
                [] \<Rightarrow> Inl IndexError
              | tail0 # tails \<Rightarrow>
                  Inr (tail0 @ take (last_done st + 1) (trajectory_temp st),
                       self\<lparr>states := ex_state st # others,
                            trajectory_list := drop (last_done st) (trajectory_temp st) # tails\<rparr>,
                       ex_env st, ex_rng st)))"

text \<open>
  A small deterministic test bed: the environment counts its steps, its state is the
  count, every reward is 1, and the episode ends at the steps listed in \<open>dones\<close>;
  the policy always answers action \<open>[0]\<close> with noise \<open>[0]\<close>.
\<close>

definition counting_io :: "nat list \<Rightarrow> (nat, nat, unit) ppo_io" where
  "counting_io dones =
     \<lparr>io_select_action = (\<lambda>g s. (([0], [0]), g)),
      io_step = (\<lambda>e a. ((Suc e, 1, e \<in> set dones), Suc e)),
      io_reset = (\<lambda>e. (e, e))\<rparr>"

definition tr :: "nat \<Rightarrow> bool \<Rightarrow> nat transition" where
  "tr s d = (s, 1, d, [0], [0])"

subsection \<open>\<^verbatim>\<open>AgentPPO.explore_vec_env\<close>\<close>

text \<open>
  The vectorized variant advances \<^verbatim>\<open>env_num = len(self.trajectory_list)\<close> environments
  in lockstep: \<open>vio_select_actions\<close> is \<^verbatim>\<open>self.select_actions\<close> on the batch of states
  and \<open>vio_step\<close> the environment's batched \<^verbatim>\<open>step\<close>, which returns one
  \<^verbatim>\<open>(next_state, reward, done)\<close> per environment.  Indexing one of the batches past its
  end raises \<^verbatim>\<open>IndexError\<close>; \<^verbatim>\<open>self\<close> is written only after the loop.
\<close>

record ('s, 'e, 'g) ppo_vec_io =
  vio_select_actions :: "'g \<Rightarrow> 's list \<Rightarrow> (real list list \<times> real list list) \<times> 'g"
  vio_step :: "'e \<Rightarrow> real list list \<Rightarrow> ('s \<times> real \<times> bool) list \<times> 'e"

record ('s, 'e, 'g) explore_vec_state =
  trajectory_temps :: "'s transition list list"
  vec_states :: "'s list"
  last_done_list :: "nat list"
  vec_env :: 'e
  vec_rng :: 'g

definition explore_vec_body ::
  "('s, 'e, 'g) ppo_vec_io \<Rightarrow> nat \<Rightarrow> nat \<Rightarrow> ('s, 'e, 'g) explore_vec_state
     \<Rightarrow> ('s, 'e, 'g) explore_vec_state \<times> py_error option" where
  "explore_vec_body io env_num i st =
     (let ((actions, noises), g') = vio_select_actions io (vec_rng st) (vec_states st);
          (s_r_d_list, e') = vio_step io (vec_env st) (map (map tanh) actions)
      in if length s_r_d_list < env_num \<or> length (vec_states st) < env_num
            \<or> length actions < env_num \<or> length noises < env_num
         then (st, Some IndexError)
         else (st\<lparr>trajectory_temps :=
                     map (\<lambda>env_i. case s_r_d_list ! env_i of (next_state, reward, done) \<Rightarrow>
                            trajectory_temps st ! env_i
                            @ [(vec_states st ! env_i, reward, done, actions ! env_i, noises ! env_i)])
                         [0..<env_num],
                   last_done_list :=
                     map (\<lambda>env_i. case s_r_d_list ! env_i of (next_state, reward, done) \<Rightarrow>
                            if done then i else last_done_list st ! env_i)
                         [0..<env_num],
                   vec_states := map (\<lambda>env_i. fst (s_r_d_list ! env_i)) [0..<env_num],
                   vec_env := e', vec_rng := g'\<rparr>, None))"

definition explore_vec_env ::
  "('s, 'e, 'g) ppo_vec_io \<Rightarrow> 's ppo_self \<Rightarrow> 'e \<Rightarrow> 'g \<Rightarrow> nat
     \<Rightarrow> py_error + ('s transition list \<times> 's ppo_self \<times> 'e \<times> 'g)" where
  "explore_vec_env io self e g target_step =
     (let env_num = length (trajectory_list self)
      in case for_loop (explore_vec_body io env_num) [0..<target_step]
                \<lparr>trajectory_temps = replicate env_num [], vec_states = states self,
                 last_done_list = replicate env_num 0, vec_env = e, vec_rng = g\<rparr> of
           (st, Some err) \<Rightarrow> Inl err
         | (st, None) \<Rightarrow>
             Inr (concat (map (\<lambda>env_i. trajectory_list self ! env_i
                                        @ take (last_done_list st ! env_i + 1) (trajectory_temps st ! env_i))
                              [0..<env_num]),
                  self\<lparr>states := vec_states st,
                       trajectory_list := map (\<lambda>env_i. drop (last_done_list st ! env_i)
                                                            (trajectory_temps st ! env_i))
                                              [0..<env_num]\<rparr>,
                  vec_env st, vec_rng st))"

text \<open>Two counting environments in lockstep: environment 0 ends its episode at the
  steps listed in \<open>dones0\<close>, environment 1 at those in \<open>dones1\<close>; the state of
  environment \<open>k\<close> is \<open>10 * k\<close> plus the step count.\<close>

definition counting_vec_io :: "nat list \<Rightarrow> nat list \<Rightarrow> (nat, nat, unit) ppo_vec_io" where
  "counting_vec_io dones0 dones1 =
     \<lparr>vio_select_actions = (\<lambda>g ss. ((map (\<lambda>s. [0]) ss, map (\<lambda>s. [0]) ss), g)),
      vio_step = (\<lambda>e as. ([(Suc e, 1, e \<in> set dones0), (10 + Suc e, 1, e \<in> set dones1)], Suc e))\<rparr>"

section \<open>Replay buffer, sampled batches and the networks' interface\<close>

text \<open>
  Elementwise tensor arithmetic on the \<open>(batch, 1)\<close> columns the objectives work
  with, the mean over a column, and \<^verbatim>\<open>torch.nn.SmoothL1Loss\<close> (with its default
  \<open>beta = 1\<close>) in its two reductions.
\<close>

definition t_add :: "tensor \<Rightarrow> tensor \<Rightarrow> tensor" where
  "t_add xs ys = map2 (+) xs ys"

definition t_sub :: "tensor \<Rightarrow> tensor \<Rightarrow> tensor" where
  "t_sub xs ys = map2 (-) xs ys"

definition t_mul :: "tensor \<Rightarrow> tensor \<Rightarrow> tensor" where
  "t_mul xs ys = map2 (*) xs ys"

definition t_min :: "tensor \<Rightarrow> tensor \<Rightarrow> tensor" where
  "t_min xs ys = map2 min xs ys"

definition t_scale :: "tensor \<Rightarrow> real \<Rightarrow> tensor" where
  "t_scale xs c = map (\<lambda>x. x * c) xs"

definition t_abs :: "tensor \<Rightarrow> tensor" where
  "t_abs xs = map abs xs"

definition t_mean :: "tensor \<Rightarrow> real" where
  "t_mean xs = sum_list xs / real (length xs)"

definition smooth_l1 :: "real \<Rightarrow> real \<Rightarrow> real" where
  "smooth_l1 x y = (let d = \<bar>x - y\<bar> in if d < 1 then 0.5 * d * d else d - 0.5)"

definition criterion_none :: "tensor \<Rightarrow> tensor \<Rightarrow> tensor" where
  "criterion_none xs ys = map2 smooth_l1 xs ys"

definition criterion_mean :: "tensor \<Rightarrow> tensor \<Rightarrow> real" where
  "criterion_mean xs ys = t_mean (criterion_none xs ys)"

fun list_max :: "real list \<Rightarrow> real" where
  "list_max [] = 0"
| "list_max (x # xs) = fold max xs x"

text \<open>
  The batch \<^verbatim>\<open>buffer.sample_batch(batch_size)\<close> returns, one entry per sample; the
  importance weights are read by the prioritized variants only.  The buffer itself is
  outside the sources: the model keeps its length fields and the log of the
  \<^verbatim>\<open>td_error_update\<close> calls it has received (oldest first).
\<close>

record ('s, 'a) batch =
  b_reward :: tensor
  b_mask :: tensor
  b_action :: "'a list"
  b_state :: "'s list"
  b_next_s :: "'s list"
  b_is_weights :: tensor

record replay_buffer =
  now_len :: nat
  max_len :: nat
  td_error_log :: "tensor list"

definition td_error_update :: "tensor \<Rightarrow> replay_buffer \<Rightarrow> replay_buffer" where
  "td_error_update td_error buffer = buffer\<lparr>td_error_log := td_error_log buffer @ [td_error]\<rparr>"

text \<open>
  The forward evaluations of \<^verbatim>\<open>elegantrl/net.py\<close> that the agents call, each on a batch
  and as a function of the network's parameters.  A stochastic evaluation also takes
  the random draw \<open>'g\<close> it consumes.  \<open>get_action_logprob\<close> returns the sampled
  actions and, per sample, the value \<^verbatim>\<open>agent.py\<close> keeps in its variables
  \<^verbatim>\<open>log_prob\<close>.  \<open>log_prob\<close> is no call of the agents: it stands for the
  log-probability that the stochastic policy with the given parameters assigns to
  the given actions in the given states, the quantity an entropy bonus is worded
  with.
\<close>

record ('s, 'a, 'g) nets =
  q_values :: "params \<Rightarrow> 's list \<Rightarrow> real list list"
  actor :: "params \<Rightarrow> 's list \<Rightarrow> 'a list"
  get_action :: "params \<Rightarrow> 'g \<Rightarrow> 's list \<Rightarrow> real \<Rightarrow> 'a list"
  get_action_logprob :: "params \<Rightarrow> 'g \<Rightarrow> 's list \<Rightarrow> 'a list \<times> tensor"
  critic :: "params \<Rightarrow> 's list \<Rightarrow> 'a list \<Rightarrow> tensor"
  get_q1_q2 :: "params \<Rightarrow> 's list \<Rightarrow> 'a list \<Rightarrow> tensor \<times> tensor"
  next_q_action :: "params \<Rightarrow> 'g \<Rightarrow> 's list \<Rightarrow> 's list \<Rightarrow> real \<Rightarrow> tensor \<times> 'a list"
  log_alpha :: "params \<Rightarrow> real"
  log_prob :: "params \<Rightarrow> 's list \<Rightarrow> 'a list \<Rightarrow> tensor"

text \<open>An objective is a scalar that depends on the parameters the optimizer owns;
  \<^verbatim>\<open>objective.item()\<close> is its value at the current parameters.\<close>

type_synonym objective = "params \<Rightarrow> real"

section \<open>Critic objectives of the off-policy agents\<close>

subsection \<open>\<^verbatim>\<open>AgentDQN\<close>\<close>

text \<open>\<^verbatim>\<open>.gather(1, action.long())\<close> picks from each row of Q-values the entry of the
  action taken; the stored actions are indices below \<^verbatim>\<open>action_dim\<close>.\<close>

definition gather :: "real list list \<Rightarrow> nat list \<Rightarrow> tensor" where
  "gather rows actions = map2 (\<lambda>row a. row ! a) rows actions"

definition DQN_q_label :: "('s, nat, 'g) nets \<Rightarrow> 'z agent_scheme \<Rightarrow> ('s, nat) batch \<Rightarrow> tensor" where
  "DQN_q_label net self b =
     (let next_q = map list_max (q_values net (cri_target self) (b_next_s b))
      in t_add (b_reward b) (t_mul (b_mask b) next_q))"

definition DQN_get_obj_critic_raw ::
  "('s, nat, 'g) nets \<Rightarrow> 'z agent_scheme \<Rightarrow> replay_buffer \<Rightarrow> ('s, nat) batch
     \<Rightarrow> objective \<times> tensor \<times> replay_buffer" where
  "DQN_get_obj_critic_raw net self buffer b =
     (let q_label = DQN_q_label net self b;
          q_value = (\<lambda>\<theta>. gather (q_values net \<theta> (b_state b)) (b_action b));
          obj_critic = (\<lambda>\<theta>. criterion_mean (q_value \<theta>) q_label)
      in (obj_critic, q_value (cri self), buffer))"

definition DQN_get_obj_critic_per ::
  "('s, nat, 'g) nets \<Rightarrow> 'z agent_scheme \<Rightarrow> replay_buffer \<Rightarrow> ('s, nat) batch
     \<Rightarrow> objective \<times> tensor \<times> replay_buffer" where
  "DQN_get_obj_critic_per net self buffer b =
     (let q_label = DQN_q_label net self b;
          q_value = (\<lambda>\<theta>. gather (q_values net \<theta> (b_state b)) (b_action b));
          obj_critic = (\<lambda>\<theta>. t_mean (t_mul (criterion_none (q_value \<theta>) q_label) (b_is_weights b)))
      in (obj_critic, q_value (cri self), buffer))"

subsection \<open>\<^verbatim>\<open>AgentDDPG\<close>\<close>

definition DDPG_q_label :: "('s, 'a, 'g) nets \<Rightarrow> 'z agent_scheme \<Rightarrow> ('s, 'a) batch \<Rightarrow> tensor" where
  "DDPG_q_label net self b =
     (let next_q = critic net (cri_target self) (b_next_s b) (actor net (act_target self) (b_next_s b))
      in t_add (b_reward b) (t_mul (b_mask b) next_q))"

definition DDPG_get_obj_critic_raw ::
  "('s, 'a, 'g) nets \<Rightarrow> 'z agent_scheme \<Rightarrow> replay_buffer \<Rightarrow> ('s, 'a) batch
     \<Rightarrow> objective \<times> 's list \<times> replay_buffer" where
  "DDPG_get_obj_critic_raw net self buffer b =
     (let q_label = DDPG_q_label net self b;
          q_value = (\<lambda>\<theta>. critic net \<theta> (b_state b) (b_action b));
          obj_critic = (\<lambda>\<theta>. criterion_mean (q_value \<theta>) q_label)
      in (obj_critic, b_state b, buffer))"

definition DDPG_get_obj_critic_per ::
  "('s, 'a, 'g) nets \<Rightarrow> 'z agent_scheme \<Rightarrow> replay_buffer \<Rightarrow> ('s, 'a) batch
     \<Rightarrow> objective \<times> 's list \<times> replay_buffer" where
  "DDPG_get_obj_critic_per net self buffer b =
     (let q_label = DDPG_q_label net self b;
          q_value = (\<lambda>\<theta>. critic net \<theta> (b_state b) (b_action b));
          obj_critic = (\<lambda>\<theta>. t_mean (t_mul (criterion_none (q_value \<theta>) q_label) (b_is_weights b)));
          td_error = t_abs (t_sub q_label (q_value (cri self)))
      in (obj_critic, b_state b, td_error_update td_error buffer))"

subsection \<open>\<^verbatim>\<open>AgentTD3\<close>\<close>

record td3_agent = agent +
  explore_noise :: real
  policy_noise :: real
  update_freq :: nat

definition TD3_q_label ::
  "('s, 'a, 'g) nets \<Rightarrow> 'z td3_agent_scheme \<Rightarrow> ('s, 'a) batch \<Rightarrow> 'g \<Rightarrow> tensor" where
  "TD3_q_label net self b draw =
     (let next_a = get_action net (act_target self) draw (b_next_s b) (policy_noise self);
          (q1t, q2t) = get_q1_q2 net (cri_target self) (b_next_s b) next_a;
          next_q = t_min q1t q2t
      in t_add (b_reward b) (t_mul (b_mask b) next_q))"

definition TD3_get_obj_critic_raw ::
  "('s, 'a, 'g) nets \<Rightarrow> 'z td3_agent_scheme \<Rightarrow> replay_buffer \<Rightarrow> ('s, 'a) batch \<Rightarrow> 'g
     \<Rightarrow> objective \<times> 's list \<times> replay_buffer" where
  "TD3_get_obj_critic_raw net self buffer b draw =
     (let q_label = TD3_q_label net self b draw;
          q1_q2 = (\<lambda>\<theta>. get_q1_q2 net \<theta> (b_state b) (b_action b));
          obj_critic = (\<lambda>\<theta>. criterion_mean (fst (q1_q2 \<theta>)) q_label
                               + criterion_mean (snd (q1_q2 \<theta>)) q_label)
      in (obj_critic, b_state b, buffer))"

definition TD3_get_obj_critic_per ::
  "('s, 'a, 'g) nets \<Rightarrow> 'z td3_agent_scheme \<Rightarrow> replay_buffer \<Rightarrow> ('s, 'a) batch \<Rightarrow> 'g
     \<Rightarrow> objective \<times> 's list \<times> replay_buffer" where
  "TD3_get_obj_critic_per net self buffer b draw =
     (let q_label = TD3_q_label net self b draw;
          q1_q2 = (\<lambda>\<theta>. get_q1_q2 net \<theta> (b_state b) (b_action b));
          obj_critic = (\<lambda>\<theta>. t_mean (t_mul (t_add (criterion_none (fst (q1_q2 \<theta>)) q_label)
                                                    (criterion_none (snd (q1_q2 \<theta>)) q_label))
                                             (b_is_weights b)));
          (q1, q2) = q1_q2 (cri self);
          td_error = t_abs (t_sub q_label (t_min q1 q2))
      in (obj_critic, b_state b, td_error_update td_error buffer))"

subsection \<open>\<^verbatim>\<open>AgentSAC\<close>\<close>

record sac_agent = agent +
  alpha_log :: real
  alpha_optim :: optim
  target_entropy :: real

text \<open>The block under \<^verbatim>\<open>torch.no_grad()\<close>, the same lines in
  \<^verbatim>\<open>get_obj_critic_raw\<close> and \<^verbatim>\<open>get_obj_critic_per\<close>.\<close>

definition SAC_q_label ::
  "('s, 'a, 'g) nets \<Rightarrow> 'z sac_agent_scheme \<Rightarrow> ('s, 'a) batch \<Rightarrow> 'g \<Rightarrow> real \<Rightarrow> tensor" where
  "SAC_q_label net self b draw alpha =
     (let (next_a, next_log_prob) = get_action_logprob net (act_target self) draw (b_next_s b);
          (q1t, q2t) = get_q1_q2 net (cri_target self) (b_next_s b) next_a;
          next_q = t_min q1t q2t
      in t_add (b_reward b) (t_mul (b_mask b) (t_add next_q (t_scale next_log_prob alpha))))"

definition SAC_get_obj_critic_raw ::
  "('s, 'a, 'g) nets \<Rightarrow> 'z sac_agent_scheme \<Rightarrow> replay_buffer \<Rightarrow> ('s, 'a) batch \<Rightarrow> 'g \<Rightarrow> real
     \<Rightarrow> objective \<times> 's list \<times> replay_buffer" where
  "SAC_get_obj_critic_raw net self buffer b draw alpha =
     (let q_label = SAC_q_label net self b draw alpha;
          q1_q2 = (\<lambda>\<theta>. get_q1_q2 net \<theta> (b_state b) (b_action b));
          obj_critic = (\<lambda>\<theta>. criterion_mean (fst (q1_q2 \<theta>)) q_label
                               + criterion_mean (snd (q1_q2 \<theta>)) q_label)
      in (obj_critic, b_state b, buffer))"


text \<open>
  \<^verbatim>\<open>init\<close> binds \<^verbatim>\<open>self.get_obj_critic\<close> to \<^verbatim>\<open>self.get_obj_critic_raw\<close>, or, with
  \<^verbatim>\<open>if_use_per\<close>, to \<^verbatim>\<open>self.get_obj_critic_per\<close>.  \<^verbatim>\<open>AgentBase.__init__\<close> has assigned
  \<^verbatim>\<open>None\<close> to the instance attribute \<^verbatim>\<open>get_obj_critic_per\<close>, and an instance attribute
  hides the method of the class: with \<^verbatim>\<open>if_use_per\<close> the value bound is \<^verbatim>\<open>None\<close>, and the
  call \<^verbatim>\<open>self.get_obj_critic(...)\<close> in \<^verbatim>\<open>update_net\<close> raises \<^verbatim>\<open>TypeError\<close>.  (No attribute
  hides \<^verbatim>\<open>get_obj_critic_raw\<close>.)
\<close>

definition DQN_get_obj_critic ::
  "('s, nat, 'g) nets \<Rightarrow> 'z agent_scheme \<Rightarrow> replay_buffer \<Rightarrow> ('s, nat) batch
     \<Rightarrow> py_error + objective \<times> tensor \<times> replay_buffer" where
  "DQN_get_obj_critic net self buffer b =
     (if if_use_per self then Inl TypeError else Inr (DQN_get_obj_critic_raw net self buffer b))"

definition DDPG_get_obj_critic ::
  "('s, 'a, 'g) nets \<Rightarrow> 'z agent_scheme \<Rightarrow> replay_buffer \<Rightarrow> ('s, 'a) batch
     \<Rightarrow> py_error + objective \<times> 's list \<times> replay_buffer" where
  "DDPG_get_obj_critic net self buffer b =
     (if if_use_per self then Inl TypeError else Inr (DDPG_get_obj_critic_raw net self buffer b))"

definition TD3_get_obj_critic ::
  "('s, 'a, 'g) nets \<Rightarrow> 'z td3_agent_scheme \<Rightarrow> replay_buffer \<Rightarrow> ('s, 'a) batch \<Rightarrow> 'g
     \<Rightarrow> py_error + objective \<times> 's list \<times> replay_buffer" where
  "TD3_get_obj_critic net self buffer b draw =
     (if if_use_per self then Inl TypeError else Inr (TD3_get_obj_critic_raw net self buffer b draw))"

definition SAC_get_obj_critic ::
  "('s, 'a, 'g) nets \<Rightarrow> 'z sac_agent_scheme \<Rightarrow> replay_buffer \<Rightarrow> ('s, 'a) batch \<Rightarrow> 'g \<Rightarrow> real
     \<Rightarrow> py_error + objective \<times> 's list \<times> replay_buffer" where
  "SAC_get_obj_critic net self buffer b draw alpha =
     (if if_use_per self then Inl TypeError
      else Inr (SAC_get_obj_critic_raw net self buffer b draw alpha))"

text \<open>
  The target as the specification words it: the minimum of the twin target critics
  plus an entropy bonus \<open>- alpha * log_prob(next_action)\<close>, discounted by the mask and
  added to the reward; \<open>log_prob(next_action)\<close> is the log-probability the target
  policy assigns to the next action it sampled.
\<close>

definition spec_entropy_bonus :: "real \<Rightarrow> tensor \<Rightarrow> tensor" where
  "spec_entropy_bonus alpha log_prob_next_action = map (\<lambda>lp. - alpha * lp) log_prob_next_action"

definition spec_SAC_q_label ::
  "('s, 'a, 'g) nets \<Rightarrow> 'z sac_agent_scheme \<Rightarrow> ('s, 'a) batch \<Rightarrow> 'g \<Rightarrow> real \<Rightarrow> tensor" where
  "spec_SAC_q_label net self b draw alpha =
     (let next_a = fst (get_action_logprob net (act_target self) draw (b_next_s b));
          (q1t, q2t) = get_q1_q2 net (cri_target self) (b_next_s b) next_a;
          entropy_bonus = spec_entropy_bonus alpha
                            (log_prob net (act_target self) (b_next_s b) next_a)
      in t_add (b_reward b) (t_mul (b_mask b) (t_add (t_min q1t q2t) entropy_bonus)))"

section \<open>\<^verbatim>\<open>update_net\<close>: the gradient loops\<close>

subsection \<open>Double-precision arithmetic of the loop bounds\<close>

text \<open>
  The loop bounds are computed in Python floats: \<^verbatim>\<open>buffer.now_len / batch_size\<close> is the
  true quotient of two integers rounded to the nearest double, and the product with
  \<^verbatim>\<open>repeat_times\<close> is rounded again; \<^verbatim>\<open>int\<close> then truncates the double.  The rounding can
  move the result across an integer, so it is part of the model.  \<open>double_round\<close>
  rounds a real to the nearest number with a 53-bit significand, ties to the even
  significand; the exponent range is not bounded (overflow to infinity, subnormal
  numbers and nan are outside the model).  \<open>repeat_times\<close> is the value of the float
  passed by the caller; for an integer \<open>repeat_times\<close> the code computes the same
  bounds as long as the integers involved stay below \<open>2\<^sup>5\<^sup>3\<close>, where the conversion to a
  float is exact.
\<close>

definition round_even :: "real \<Rightarrow> int" where
  "round_even y =
     (let f = \<lfloor>y\<rfloor>; d = y - of_int f
      in if d < 1 / 2 then f else if 1 / 2 < d then f + 1 else if even f then f else f + 1)"

definition double_round :: "real \<Rightarrow> real" where
  "double_round x =
     (if x = 0 then 0
      else let u = 2 powr (of_int \<lfloor>log 2 \<bar>x\<bar>\<rfloor> - 52)
           in u * of_int (round_even (x / u)))"

definition fdiv :: "real \<Rightarrow> real \<Rightarrow> real" where
  "fdiv a b = double_round (a / b)"

definition fmul :: "real \<Rightarrow> real \<Rightarrow> real" where
  "fmul a b = double_round (a * b)"

text \<open>
  \<^verbatim>\<open>int(x)\<close> truncates towards zero, and \<^verbatim>\<open>range(lo, hi)\<close> is empty unless
  \<open>lo < hi\<close>.  A zero \<^verbatim>\<open>batch_size\<close> raises \<^verbatim>\<open>ZeroDivisionError\<close> in the division.

  \<^verbatim>\<open>int(buffer.now_len / batch_size * repeat_times)\<close> is the bound of \<^verbatim>\<open>AgentDQN\<close>,
  \<^verbatim>\<open>AgentDDPG\<close>, \<^verbatim>\<open>AgentTD3\<close>, \<^verbatim>\<open>AgentSharedAC\<close> and \<^verbatim>\<open>AgentSharedSAC\<close>;
  \<^verbatim>\<open>int(buffer.now_len * repeat_times / batch_size)\<close> is the bound of \<^verbatim>\<open>AgentSAC\<close> and
  \<^verbatim>\<open>AgentModSAC\<close>.
\<close>

definition py_int :: "real \<Rightarrow> int" where
  "py_int x = (if 0 \<le> x then \<lfloor>x\<rfloor> else \<lceil>x\<rceil>)"

definition py_range :: "nat \<Rightarrow> int \<Rightarrow> nat list" where
  "py_range lo hi = [lo..<nat hi]"

definition bound_div_mul :: "nat \<Rightarrow> nat \<Rightarrow> real \<Rightarrow> int" where
  "bound_div_mul n batch_size repeat_times =
     py_int (fmul (fdiv (real n) (real batch_size)) repeat_times)"

definition bound_mul_div :: "nat \<Rightarrow> nat \<Rightarrow> real \<Rightarrow> int" where
  "bound_mul_div n batch_size repeat_times =
     py_int (fdiv (fmul (real n) repeat_times) (real batch_size))"

text \<open>
  What a training run supplies from outside the sources: the networks, the effect of
  an optimizer step on a parameter set (and on the scalar \<^verbatim>\<open>alpha_log\<close>), the batch
  the buffer samples in the \<open>i\<close>-th iteration and the random draw of the \<open>k\<close>-th
  stochastic network evaluation.
\<close>

record ('s, 'a, 'g) trainer =
  t_nets :: "('s, 'a, 'g) nets"
  t_descend :: "objective descend"
  t_descend_alpha :: "optim \<Rightarrow> (real \<Rightarrow> real) \<Rightarrow> real \<Rightarrow> real \<times> params"
  t_sample :: "nat \<Rightarrow> ('s, 'a) batch"
  t_draw :: "nat \<Rightarrow> 'g"

text \<open>\<^verbatim>\<open>self.optim_update(self.cri_optim, objective)\<close> and
  \<^verbatim>\<open>self.optim_update(self.act_optim, objective)\<close>.\<close>

definition step_cri :: "('s, 'a, 'g) trainer \<Rightarrow> objective \<Rightarrow> 'z agent_scheme \<Rightarrow> 'z agent_scheme" where
  "step_cri w obj self =
     (let (net', opt') = optim_update (t_descend w) (cri_optim self) obj (cri self)
      in self\<lparr>cri := net', cri_optim := opt'\<rparr>)"

definition step_act :: "('s, 'a, 'g) trainer \<Rightarrow> objective \<Rightarrow> 'z agent_scheme \<Rightarrow> 'z agent_scheme" where
  "step_act w obj self =
     (let (net', opt') = optim_update (t_descend w) (act_optim self) obj (act self)
      in self\<lparr>act := net', act_optim := opt'\<rparr>)"

text \<open>\<^verbatim>\<open>x.item()\<close> on a diagnostic that is still \<^verbatim>\<open>None\<close> raises \<^verbatim>\<open>AttributeError\<close>.\<close>

definition item :: "real option \<Rightarrow> py_error + real" where
  "item x = (case x of None \<Rightarrow> Inl AttributeError | Some v \<Rightarrow> Inr v)"

subsection \<open>\<^verbatim>\<open>AgentDQN.update_net\<close>\<close>

text \<open>The loop state is \<^verbatim>\<open>self\<close>, the buffer and the two diagnostics
  \<^verbatim>\<open>obj_critic\<close> and \<^verbatim>\<open>q_value.mean()\<close>, as values.  \<^verbatim>\<open>buffer.update_now_len()\<close> belongs
  to the buffer: \<open>now_len\<close> is the refreshed length.  An iteration whose call of
  \<^verbatim>\<open>self.get_obj_critic\<close> raises ends the loop and the call of \<^verbatim>\<open>update_net\<close>.\<close>

definition DQN_update_body ::
  "('s, nat, 'g) trainer \<Rightarrow> real \<Rightarrow> nat
     \<Rightarrow> 'z agent_scheme \<times> replay_buffer \<times> real option \<times> real option
     \<Rightarrow> ('z agent_scheme \<times> replay_buffer \<times> real option \<times> real option) \<times> py_error option" where
  "DQN_update_body w tau i = (\<lambda>(self, buffer, obj_critic0, q_value0).
     case DQN_get_obj_critic (t_nets w) self buffer (t_sample w i) of
       Inl e \<Rightarrow> ((self, buffer, obj_critic0, q_value0), Some e)
     | Inr (obj_critic, q_value, buffer1) \<Rightarrow>
         let self1 = step_cri w obj_critic self;
             self2 = soft_update_cri tau self1
         in ((self2, buffer1, Some (obj_critic (cri self)), Some (t_mean q_value)), None))"

definition DQN_update_net ::
  "('s, nat, 'g) trainer \<Rightarrow> 'z agent_scheme \<Rightarrow> replay_buffer \<Rightarrow> nat \<Rightarrow> real \<Rightarrow> real
     \<Rightarrow> 'z agent_scheme \<times> replay_buffer \<times> (py_error + real \<times> real)" where
  "DQN_update_net w self buffer batch_size repeat_times tau =
     (if batch_size = 0 then (self, buffer, Inl ZeroDivisionError)
      else case for_loop (DQN_update_body w tau)
                  (py_range 0 (bound_div_mul (now_len buffer) batch_size repeat_times))
                  (self, buffer, None, None) of
             ((self', buffer', obj_critic, q_value), Some e) \<Rightarrow> (self', buffer', Inl e)
           | ((self', buffer', obj_critic, q_value), None) \<Rightarrow>
               (self', buffer',
                case item obj_critic of Inl e \<Rightarrow> Inl e
                | Inr oc \<Rightarrow> (case item q_value of Inl e \<Rightarrow> Inl e | Inr qv \<Rightarrow> Inr (oc, qv))))"

subsection \<open>\<^verbatim>\<open>AgentDDPG.update_net\<close>\<close>

definition DDPG_update_body ::
  "('s, 'a, 'g) trainer \<Rightarrow> real \<Rightarrow> nat
     \<Rightarrow> 'z agent_scheme \<times> replay_buffer \<times> real option \<times> real option
     \<Rightarrow> ('z agent_scheme \<times> replay_buffer \<times> real option \<times> real option) \<times> py_error option" where
  "DDPG_update_body w tau i = (\<lambda>(self, buffer, obj_critic0, obj_actor0).
     case DDPG_get_obj_critic (t_nets w) self buffer (t_sample w i) of
       Inl e \<Rightarrow> ((self, buffer, obj_critic0, obj_actor0), Some e)
     | Inr (obj_critic, batch_state, buffer1) \<Rightarrow>
         let self1 = step_cri w obj_critic self;
             self2 = soft_update_cri tau self1;
             obj_actor = (\<lambda>\<theta>. - t_mean (critic (t_nets w) (cri self2) batch_state
                                             (actor (t_nets w) \<theta> batch_state)));
             self3 = step_act w obj_actor self2;
             self4 = soft_update_act tau self3
         in ((self4, buffer1, Some (obj_critic (cri self)), Some (obj_actor (act self2))), None))"

definition DDPG_update_net ::
  "('s, 'a, 'g) trainer \<Rightarrow> 'z agent_scheme \<Rightarrow> replay_buffer \<Rightarrow> nat \<Rightarrow> real \<Rightarrow> real
     \<Rightarrow> 'z agent_scheme \<times> replay_buffer \<times> (py_error + real \<times> real)" where
  "DDPG_update_net w self buffer batch_size repeat_times tau =
     (if batch_size = 0 then (self, buffer, Inl ZeroDivisionError)
      else case for_loop (DDPG_update_body w tau)
                  (py_range 0 (bound_div_mul (now_len buffer) batch_size repeat_times))
                  (self, buffer, None, None) of
             ((self', buffer', obj_critic, obj_actor), Some e) \<Rightarrow> (self', buffer', Inl e)
           | ((self', buffer', obj_critic, obj_actor), None) \<Rightarrow>
               (self', buffer',
                case item obj_actor of Inl e \<Rightarrow> Inl e
                | Inr oa \<Rightarrow> (case item obj_critic of Inl e \<Rightarrow> Inl e | Inr oc \<Rightarrow> Inr (oa, oc))))"

subsection \<open>\<^verbatim>\<open>AgentTD3.update_net\<close>\<close>

text \<open>
  \<^verbatim>\<open>update_c % self.update_freq\<close> raises \<^verbatim>\<open>ZeroDivisionError\<close> when the frequency is
  zero; by then the critic and the actor have taken the iteration's optimizer steps.
  The last component of the loop state logs the iterations \<open>update_c\<close> in which the two
  \<^verbatim>\<open>soft_update\<close> calls under \<^verbatim>\<open>if update_c % self.update_freq == 0\<close> were executed; the
  log is returned beside the result.
\<close>

definition TD3_update_body ::
  "('s, 'a, 'g) trainer \<Rightarrow> real \<Rightarrow> nat
     \<Rightarrow> 'z td3_agent_scheme \<times> replay_buffer \<times> real option \<times> real option \<times> nat list
     \<Rightarrow> ('z td3_agent_scheme \<times> replay_buffer \<times> real option \<times> real option \<times> nat list)
         \<times> py_error option" where
  "TD3_update_body w tau update_c = (\<lambda>(self, buffer, obj_critic0, obj_actor0, soft_updates).
     case TD3_get_obj_critic (t_nets w) self buffer (t_sample w update_c) (t_draw w update_c) of
       Inl e \<Rightarrow> ((self, buffer, obj_critic0, obj_actor0, soft_updates), Some e)
     | Inr (obj_critic, batch_state, buffer1) \<Rightarrow>
         let self1 = step_cri w obj_critic self;
             obj_actor = (\<lambda>\<theta>. - t_mean (critic (t_nets w) (cri_target self1) batch_state
                                             (actor (t_nets w) \<theta> batch_state)));
             self2 = step_act w obj_actor self1;
             oc = Some (obj_critic (cri self));
             oa = Some (obj_actor (act self1))
         in if update_freq self2 = 0
            then ((self2, buffer1, oc, oa, soft_updates), Some ZeroDivisionError)
            else if update_c mod update_freq self2 = 0
            then ((soft_update_act tau (soft_update_cri tau self2), buffer1, oc, oa,
                   soft_updates @ [update_c]), None)
            else ((self2, buffer1, oc, oa, soft_updates), None))"

definition TD3_update_net ::
  "('s, 'a, 'g) trainer \<Rightarrow> 'z td3_agent_scheme \<Rightarrow> replay_buffer \<Rightarrow> nat \<Rightarrow> real \<Rightarrow> real
     \<Rightarrow> 'z td3_agent_scheme \<times> replay_buffer \<times> nat list \<times> (py_error + real \<times> real)" where
  "TD3_update_net w self buffer batch_size repeat_times tau =
     (if batch_size = 0 then (self, buffer, [], Inl ZeroDivisionError)
      else case for_loop (TD3_update_body w tau)
                  (py_range 0 (bound_div_mul (now_len buffer) batch_size repeat_times))
                  (self, buffer, None, None, []) of
             ((self', buffer', obj_critic, obj_actor, soft_updates), Some e) \<Rightarrow>
               (self', buffer', soft_updates, Inl e)
           | ((self', buffer', obj_critic, obj_actor, soft_updates), None) \<Rightarrow>
               (self', buffer', soft_updates,
                case item obj_critic of Inl e \<Rightarrow> Inl e
                | Inr oc \<Rightarrow> (case item obj_actor of Inl e \<Rightarrow> Inl e | Inr oa \<Rightarrow> Inr (oc / 2, oa))))"

subsection \<open>\<^verbatim>\<open>AgentSAC.update_net\<close>\<close>

text \<open>
  \<^verbatim>\<open>AgentSAC\<close> sets \<^verbatim>\<open>if_use_act_target = False\<close>, so \<^verbatim>\<open>self.act_target\<close> is the object
  \<^verbatim>\<open>self.act\<close>: what is written to one is written to the other.  The temperature
  \<^verbatim>\<open>alpha_log\<close> is a one-entry tensor with an optimizer of its own; after its step it
  is clamped.
\<close>

definition clamp :: "real \<Rightarrow> real \<Rightarrow> real \<Rightarrow> real" where
  "clamp lo hi x = min (max x lo) hi"

definition step_alpha ::
  "('s, 'a, 'g) trainer \<Rightarrow> (real \<Rightarrow> real) \<Rightarrow> 'z sac_agent_scheme \<Rightarrow> 'z sac_agent_scheme" where
  "step_alpha w obj self =
     (let (a', m') = t_descend_alpha w (alpha_optim self) obj (alpha_log self)
      in self\<lparr>alpha_log := a',
              alpha_optim := (alpha_optim self)\<lparr>n_steps := Suc (n_steps (alpha_optim self)),
                                              moments := m'\<rparr>\<rparr>)"

definition obj_alpha_of :: "'z sac_agent_scheme \<Rightarrow> tensor \<Rightarrow> real \<Rightarrow> real" where
  "obj_alpha_of self logp = (\<lambda>a. t_mean (map (\<lambda>lp. a * (lp - target_entropy self)) logp))"

definition SAC_update_body ::
  "('s, 'a, 'g) trainer \<Rightarrow> real \<Rightarrow> nat
     \<Rightarrow> 'z sac_agent_scheme \<times> replay_buffer \<times> real option \<times> real option
     \<Rightarrow> ('z sac_agent_scheme \<times> replay_buffer \<times> real option \<times> real option) \<times> py_error option" where
  "SAC_update_body w tau i = (\<lambda>(self, buffer, obj_critic0, obj_actor0).
     let alpha = exp (alpha_log self)
     in case SAC_get_obj_critic (t_nets w) self buffer (t_sample w i) (t_draw w (2 * i)) alpha of
       Inl e \<Rightarrow> ((self, buffer, obj_critic0, obj_actor0), Some e)
     | Inr (obj_critic, batch_state, buffer1) \<Rightarrow>
         let self1 = step_cri w obj_critic self;
             self2 = soft_update_cri tau self1;
             pg = (\<lambda>\<theta>. get_action_logprob (t_nets w) \<theta> (t_draw w (2 * i + 1)) batch_state);
             self3 = step_alpha w (obj_alpha_of self2 (snd (pg (act self2)))) self2;
             self4 = self3\<lparr>alpha_log := clamp (-20) 2 (alpha_log self3)\<rparr>;
             obj_actor = (\<lambda>\<theta>. - t_mean (t_add
                            (case get_q1_q2 (t_nets w) (cri_target self4) batch_state (fst (pg \<theta>)) of
                               (q1, q2) \<Rightarrow> t_min q1 q2)
                            (t_scale (snd (pg \<theta>)) alpha)));
             self5 = step_act w obj_actor self4;
             self6 = self5\<lparr>act_target := act self5\<rparr>;
             self7 = soft_update_act tau self6;
             self8 = self7\<lparr>act := act_target self7\<rparr>
         in ((self8, buffer1, Some (obj_critic (cri self)), Some (obj_actor (act self4))), None))"

definition SAC_update_net ::
  "('s, 'a, 'g) trainer \<Rightarrow> 'z sac_agent_scheme \<Rightarrow> replay_buffer \<Rightarrow> nat \<Rightarrow> real \<Rightarrow> real
     \<Rightarrow> 'z sac_agent_scheme \<times> replay_buffer \<times> (py_error + real \<times> real \<times> real)" where
  "SAC_update_net w self buffer batch_size repeat_times tau =
     (if batch_size = 0 then (self, buffer, Inl ZeroDivisionError)
      else case for_loop (SAC_update_body w tau)
                  (py_range 0 (bound_mul_div (now_len buffer) batch_size repeat_times))
                  (self, buffer, None, None) of
             ((self', buffer', obj_critic, obj_actor), Some e) \<Rightarrow> (self', buffer', Inl e)
           | ((self', buffer', obj_critic, obj_actor), None) \<Rightarrow>
               (self', buffer',
                case item obj_critic of Inl e \<Rightarrow> Inl e
                | Inr oc \<Rightarrow> (case item obj_actor of Inl e \<Rightarrow> Inl e
                             | Inr oa \<Rightarrow> Inr (oc, oa, exp (alpha_log self')))))"

subsection \<open>\<^verbatim>\<open>AgentModSAC.update_net\<close>\<close>

text \<open>
  \<^verbatim>\<open>AgentModSAC\<close> has an actor target of its own.  Its loop runs over
  \<^verbatim>\<open>range(1, int(...))\<close>; \<^verbatim>\<open>update_a\<close> counts the actor updates.

  \<^verbatim>\<open>self.obj_c\<close> is a float that the agent keeps from one call to the next.  Its value
  \<open>None\<close> stands for \<^verbatim>\<open>nan\<close>, which a critic loss that was \<^verbatim>\<open>nan\<close> in an earlier call
  leaves there: \<^verbatim>\<open>0.995 * nan + x\<close> is \<^verbatim>\<open>nan\<close>, so is
  \<^verbatim>\<open>reliable_lambda = np.exp(-self.obj_c ** 2)\<close>, and every comparison with \<^verbatim>\<open>nan\<close>, the
  throttle \<^verbatim>\<open>update_a / update_c < 1 / (2 - reliable_lambda)\<close> among them, is false.
  Otherwise the throttle is evaluated over the reals; in the first iteration, which
  decides whether \<^verbatim>\<open>obj_actor\<close> is ever set, it compares \<open>0 / 1\<close> with a number that is at
  least \<open>1 / 2\<close>, in floats as over the reals.
\<close>

record modsac_agent = sac_agent +
  obj_c :: "real option"

definition ModSAC_update_body ::
  "('s, 'a, 'g) trainer \<Rightarrow> real \<Rightarrow> nat
     \<Rightarrow> 'z modsac_agent_scheme \<times> replay_buffer \<times> nat \<times> real option
     \<Rightarrow> ('z modsac_agent_scheme \<times> replay_buffer \<times> nat \<times> real option) \<times> py_error option" where
  "ModSAC_update_body w tau update_c = (\<lambda>(self, buffer, update_a, obj_actor0).
     let alpha = exp (alpha_log self)
     in case SAC_get_obj_critic (t_nets w) self buffer (t_sample w update_c)
               (t_draw w (2 * update_c)) alpha of
       Inl e \<Rightarrow> ((self, buffer, update_a, obj_actor0), Some e)
     | Inr (obj_critic, batch_state, buffer1) \<Rightarrow>
         let self1 = self\<lparr>obj_c := map_option (\<lambda>c. 0.995 * c + 0.0025 * obj_critic (cri self))
                                     (obj_c self)\<rparr>;
             self2 = step_cri w obj_critic self1;
             self3 = soft_update_cri tau self2;
             pg = (\<lambda>\<theta>. get_action_logprob (t_nets w) \<theta> (t_draw w (2 * update_c + 1)) batch_state);
             self4 = step_alpha w (obj_alpha_of self3 (snd (pg (act self3)))) self3;
             self5 = self4\<lparr>alpha_log := clamp (-16) 2 (alpha_log self4)\<rparr>;
             reliable_lambda = map_option (\<lambda>c. exp (- c\<^sup>2)) (obj_c self5);
             if_update_a = (case reliable_lambda of
                              None \<Rightarrow> False
                            | Some l \<Rightarrow> real update_a / real update_c < 1 / (2 - l))
         in if if_update_a
            then (let obj_actor = (\<lambda>\<theta>. - t_mean (t_add
                            (case get_q1_q2 (t_nets w) (cri self5) batch_state (fst (pg \<theta>)) of
                               (q1, q2) \<Rightarrow> t_min q1 q2)
                            (t_scale (snd (pg \<theta>)) alpha)));
                      self6 = step_act w obj_actor self5;
                      self7 = soft_update_act tau self6
                  in ((self7, buffer1, update_a + 1, Some (obj_actor (act self5))), None))
            else ((self5, buffer1, update_a, obj_actor0), None))"

definition ModSAC_update_net ::
  "('s, 'a, 'g) trainer \<Rightarrow> 'z modsac_agent_scheme \<Rightarrow> replay_buffer \<Rightarrow> nat \<Rightarrow> real \<Rightarrow> real
     \<Rightarrow> 'z modsac_agent_scheme \<times> replay_buffer \<times> (py_error + real option \<times> real \<times> real)" where
  "ModSAC_update_net w self buffer batch_size repeat_times tau =
     (if batch_size = 0 then (self, buffer, Inl ZeroDivisionError)
      else case for_loop (ModSAC_update_body w tau)
                  (py_range 1 (bound_mul_div (now_len buffer) batch_size repeat_times))
                  (self, buffer, 0, None) of
             ((self', buffer', update_a, obj_actor), Some e) \<Rightarrow> (self', buffer', Inl e)
           | ((self', buffer', update_a, obj_actor), None) \<Rightarrow>
               (self', buffer',
                case item obj_actor of Inl e \<Rightarrow> Inl e
                | Inr oa \<Rightarrow> Inr (obj_c self', oa, exp (alpha_log self'))))"

subsection \<open>\<^verbatim>\<open>AgentSharedAC.update_net\<close>\<close>

text \<open>
  One network (\<^verbatim>\<open>SharedDPG\<close>) is actor and critic.  \<^verbatim>\<open>AgentSharedAC\<close> keeps
  \<^verbatim>\<open>update_freq = 2 ** 7\<close>, \<^verbatim>\<open>policy_noise\<close>, \<^verbatim>\<open>explore_noise\<close> and the running loss
  \<^verbatim>\<open>avg_loss_c\<close>.  Its \<^verbatim>\<open>__init__\<close> does not set \<^verbatim>\<open>if_use_cri_target\<close>, which \<^verbatim>\<open>AgentBase\<close>
  leaves \<^verbatim>\<open>None\<close>: unless the caller sets it, \<^verbatim>\<open>init\<close> makes \<^verbatim>\<open>self.cri_target\<close> the object
  \<^verbatim>\<open>self.cri\<close>.  The loop state carries the log of the iterations in which
  \<^verbatim>\<open>self.cri_target.load_state_dict(self.cri.state_dict())\<close> was executed.
  Actions are vectors here: the actor correction term is a loss between two batches
  of actions.  The batch comes from \<^verbatim>\<open>buffer.sample_batch\<close> directly, not through
  \<^verbatim>\<open>self.get_obj_critic\<close>.
\<close>

record sharedac_agent = td3_agent +
  if_use_cri_target :: bool
  avg_loss_c :: real

definition AgentSharedAC_init :: "params \<Rightarrow> optim \<Rightarrow> sharedac_agent" where
  "AgentSharedAC_init net0 opt0 =
     \<lparr>if_use_per = False, cri = net0, cri_target = net0, cri_optim = opt0,
      act = net0, act_target = net0, act_optim = opt0,
      explore_noise = 0.2, policy_noise = 0.4, update_freq = 2 ^ 7,
      if_use_cri_target = False, avg_loss_c = sqrt (- ln 0.5)\<rparr>"

text \<open>\<^verbatim>\<open>i % repeat_times == 0\<close> for a positive \<^verbatim>\<open>repeat_times\<close> (inside the loop it is
  positive): \<open>i\<close> is a whole multiple of it.\<close>

definition is_multiple :: "nat \<Rightarrow> real \<Rightarrow> bool" where
  "is_multiple i r = (real_of_int \<lfloor>real i / r\<rfloor> = real i / r)"

definition SharedAC_update_body ::
  "('s, real list, 'g) trainer \<Rightarrow> real \<Rightarrow> nat
     \<Rightarrow> 'z sharedac_agent_scheme \<times> replay_buffer \<times> real option \<times> nat list
     \<Rightarrow> ('z sharedac_agent_scheme \<times> replay_buffer \<times> real option \<times> nat list) \<times> py_error option" where
  "SharedAC_update_body w repeat_times i = (\<lambda>(self, buffer, actor_obj0, hard_updates).
     let b = t_sample w i;
         tgt = (\<lambda>\<theta>. if if_use_cri_target self then cri_target self else \<theta>);
         (next_q_label, next_action) =
           next_q_action (t_nets w) (cri_target self) (t_draw w i) (b_state b) (b_next_s b)
             (policy_noise self);
         q_label = t_add (b_reward b) (t_mul (b_mask b) next_q_label);
         critic_obj = (\<lambda>\<theta>. criterion_mean (critic (t_nets w) \<theta> (b_state b) (b_action b)) q_label);
         self1 = self\<lparr>avg_loss_c := 0.995 * avg_loss_c self + 0.005 * critic_obj (cri self) / 2\<rparr>;
         lamb = exp (- (avg_loss_c self1)\<^sup>2);
         actor_term = (\<lambda>\<theta>. criterion_mean (concat (actor (t_nets w) \<theta> (b_next_s b)))
                                          (concat next_action));
         actor_obj = (\<lambda>\<theta>. - t_mean (critic (t_nets w) (tgt \<theta>) (b_state b)
                                         (actor (t_nets w) \<theta> (b_state b))));
         if_actor = is_multiple i repeat_times;
         united_loss = (\<lambda>\<theta>. if if_actor
                              then critic_obj \<theta> + actor_term \<theta> * (1 - lamb) + actor_obj \<theta> * (lamb * 0.5)
                              else critic_obj \<theta> + actor_term \<theta> * (1 - lamb));
         actor_obj1 = (if if_actor then Some (actor_obj (cri self)) else actor_obj0);
         self2 = step_cri w united_loss self1;
         self3 = self2\<lparr>act := cri self2,
                       cri_target := (if if_use_cri_target self2 then cri_target self2 else cri self2)\<rparr>
     in if update_freq self3 = 0 then ((self3, buffer, actor_obj1, hard_updates), Some ZeroDivisionError)
        else if i mod update_freq self3 = update_freq self3 \<and> lamb > 0.1
        then ((self3\<lparr>cri_target := cri self3\<rparr>, buffer, actor_obj1, hard_updates @ [i]), None)
        else ((self3, buffer, actor_obj1, hard_updates), None))"

definition SharedAC_update_net ::
  "('s, real list, 'g) trainer \<Rightarrow> 'z sharedac_agent_scheme \<Rightarrow> replay_buffer \<Rightarrow> nat \<Rightarrow> real \<Rightarrow> real
     \<Rightarrow> 'z sharedac_agent_scheme \<times> replay_buffer \<times> nat list \<times> (py_error + real \<times> real)" where
  "SharedAC_update_net w self buffer batch_size repeat_times tau =
     (if max_len buffer = 0 \<or> batch_size = 0 then (self, buffer, [], Inl ZeroDivisionError)
      else case for_loop (SharedAC_update_body w repeat_times)
                  (py_range 0 (bound_div_mul (now_len buffer) batch_size repeat_times))
                  (self, buffer, None, []) of
             ((self', buffer', actor_obj, hard_updates), Some e) \<Rightarrow> (self', buffer', hard_updates, Inl e)
           | ((self', buffer', actor_obj, hard_updates), None) \<Rightarrow>
               (self', buffer', hard_updates,
                case item actor_obj of Inl e \<Rightarrow> Inl e | Inr ao \<Rightarrow> Inr (ao, avg_loss_c self')))"

subsection \<open>\<^verbatim>\<open>AgentSharedSAC.update_net\<close>\<close>

text \<open>
  \<^verbatim>\<open>AgentSharedSAC.init\<close> does not call the base \<^verbatim>\<open>init\<close> and binds no critic
  objective: \<^verbatim>\<open>self.get_obj_critic\<close> is the \<^verbatim>\<open>None\<close> of \<^verbatim>\<open>AgentBase.__init__\<close>, and the first
  statement of the loop body, the call \<^verbatim>\<open>self.get_obj_critic(...)\<close>, raises \<^verbatim>\<open>TypeError\<close>;
  the statements after it are never reached.  The local \<^verbatim>\<open>alpha\<close> is bound in the loop
  body only, past that call: the \<^verbatim>\<open>return alpha.item(), self.obj_c\<close> after a loop that
  did not run raises \<^verbatim>\<open>UnboundLocalError\<close>.  The loop state is \<^verbatim>\<open>self\<close>, the buffer and
  the local \<^verbatim>\<open>alpha\<close>, \<open>None\<close> while it is unbound.
\<close>

definition SharedSAC_update_body ::
  "nat \<Rightarrow> 'z modsac_agent_scheme \<times> replay_buffer \<times> real option
       \<Rightarrow> ('z modsac_agent_scheme \<times> replay_buffer \<times> real option) \<times> py_error option" where
  "SharedSAC_update_body update_c = (\<lambda>(self, buffer, alpha). ((self, buffer, alpha), Some TypeError))"

definition SharedSAC_update_net ::
  "'z modsac_agent_scheme \<Rightarrow> replay_buffer \<Rightarrow> nat \<Rightarrow> real \<Rightarrow> real
     \<Rightarrow> 'z modsac_agent_scheme \<times> replay_buffer \<times> (py_error + real \<times> real option)" where
  "SharedSAC_update_net self buffer batch_size repeat_times tau =
     (if batch_size = 0 then (self, buffer, Inl ZeroDivisionError)
      else case for_loop SharedSAC_update_body
                  (py_range 1 (bound_div_mul (now_len buffer) batch_size repeat_times))
                  (self, buffer, None) of
             ((self', buffer', alpha), Some e) \<Rightarrow> (self', buffer', Inl e)
           | ((self', buffer', alpha), None) \<Rightarrow>
               (self', buffer',
                case alpha of None \<Rightarrow> Inl UnboundLocalError | Some a \<Rightarrow> Inr (a, obj_c self')))"

section \<open>\<^verbatim>\<open>select_action\<close> of the discrete-action agents\<close>

text \<open>
  \<^verbatim>\<open>select_action\<close> draws from numpy's random generator.  The draws it makes are kept as
  a small program: \<open>RandLess p k\<close> is the test \<^verbatim>\<open>rd.rand() < p\<close> (\<^verbatim>\<open>rd.rand()\<close> is uniform
  on \<open>[0, 1)\<close>), \<open>Randint n k\<close> is \<^verbatim>\<open>rd.randint(n)\<close> (uniform on \<open>0, \<dots>, n - 1\<close>) and
  \<open>Choice n p k\<close> is \<^verbatim>\<open>rd.choice(n, p=p)\<close> (index \<open>i\<close> with probability \<open>p[i]\<close>); \<open>k\<close>
  continues with the value drawn.  \<open>prob\<close> is the probability that the program
  returns a given value, \<open>run\<close> its result for given draws \<open>u\<close> of \<^verbatim>\<open>rd.rand()\<close> and
  \<open>r\<close> of the integer draw.
\<close>

datatype 'x rand_prog =
    Return 'x
  | RandLess real "bool \<Rightarrow> 'x rand_prog"
  | Randint nat "nat \<Rightarrow> 'x rand_prog"
  | Choice nat "real list" "nat \<Rightarrow> 'x rand_prog"

primrec prob :: "'x rand_prog \<Rightarrow> 'x \<Rightarrow> real" where
  "prob (Return x) a = (if x = a then 1 else 0)"
| "prob (RandLess p k) a =
     clamp 0 1 p * prob (k True) a + (1 - clamp 0 1 p) * prob (k False) a"
| "prob (Randint n k) a = sum_list (map (\<lambda>i. prob (k i) a) [0..<n]) / real n"
| "prob (Choice n p k) a = sum_list (map (\<lambda>i. p ! i * prob (k i) a) [0..<n])"

primrec run :: "'x rand_prog \<Rightarrow> real \<Rightarrow> nat \<Rightarrow> 'x" where
  "run (Return x) u r = x"
| "run (RandLess p k) u r = run (k (u < p)) u r"
| "run (Randint n k) u r = run (k r) u r"
| "run (Choice n p k) u r = run (k r) u r"

text \<open>\<^verbatim>\<open>tensor.argmax(dim=0)\<close>: the index of the first maximal entry;
  \<^verbatim>\<open>torch.nn.Softmax\<close>.\<close>

fun argmax :: "real list \<Rightarrow> nat" where
  "argmax [] = 0"
| "argmax [x] = 0"
| "argmax (x # y # ys) =
     (let j = argmax (y # ys) in if (y # ys) ! j \<le> x then 0 else Suc j)"

definition softmax :: "real list \<Rightarrow> real list" where
  "softmax xs = map (\<lambda>x. exp x / sum_list (map exp xs)) xs"

text \<open>
  \<^verbatim>\<open>AgentDQN.__init__\<close> sets \<^verbatim>\<open>explore_rate = 0.25\<close>; \<^verbatim>\<open>action_dim\<close> comes from \<^verbatim>\<open>init\<close>.
  The agents have no actor class, so \<^verbatim>\<open>self.act\<close> is the critic network;
  \<^verbatim>\<open>self.act(states)[0]\<close> is the row of Q-values of the one state.  \<^verbatim>\<open>action_dim\<close> is
  positive (\<^verbatim>\<open>rd.randint(0)\<close> raises).
\<close>

record dqn_agent = agent +
  explore_rate :: real
  action_dim :: nat

definition DQN_select_action ::
  "('s, nat, 'g) nets \<Rightarrow> 'z dqn_agent_scheme \<Rightarrow> 's \<Rightarrow> nat rand_prog" where
  "DQN_select_action net self s =
     RandLess (explore_rate self)
       (\<lambda>explore. if explore then Randint (action_dim self) Return
                   else Return (argmax (q_values net (act self) [s] ! 0)))"

definition DoubleDQN_select_action ::
  "('s, nat, 'g) nets \<Rightarrow> 'z dqn_agent_scheme \<Rightarrow> 's \<Rightarrow> nat rand_prog" where
  "DoubleDQN_select_action net self s =
     (let actions = q_values net (act self) [s]
      in RandLess (explore_rate self)
           (\<lambda>explore. if explore then Choice (action_dim self) (softmax (actions ! 0)) Return
                       else Return (argmax (actions ! 0))))"

text \<open>Epsilon-greedy as the specification words it: a uniform draw over the
  \<open>action_dim\<close> actions with probability \<open>explore_rate\<close>, the arg-max otherwise.\<close>

definition spec_epsilon_greedy :: "real \<Rightarrow> nat \<Rightarrow> real list \<Rightarrow> nat \<Rightarrow> real" where
  "spec_epsilon_greedy rate n_actions q a =
     rate * (if a < n_actions then 1 / real n_actions else 0) + (1 - rate) * (if a = argmax q then 1 else 0)"

section \<open>A small test bed\<close>

text \<open>
  One-sample probes on which the definitions above can be run.  The networks ignore
  their parameters: both target critics answer 0, every action is \<open>a0\<close>, its
  log-probability is \<open>- 1\<close> and the value \<open>get_action_logprob\<close> returns with it is 1;
  the sampled batch has reward 0,
  mask 1 and importance weight 1.  An optimizer step adds 1 to every parameter and
  leaves \<^verbatim>\<open>alpha_log\<close> as it is.
\<close>

definition probe_nets :: "'a \<Rightarrow> (unit, 'a, unit) nets" where
  "probe_nets a0 =
     \<lparr>q_values = (\<lambda>\<theta> ss. [[0]]),
      actor = (\<lambda>\<theta> ss. [a0]),
      get_action = (\<lambda>\<theta> g ss std. [a0]),
      get_action_logprob = (\<lambda>\<theta> g ss. ([a0], [1])),
      critic = (\<lambda>\<theta> ss as. [0]),
      get_q1_q2 = (\<lambda>\<theta> ss as. ([0], [0])),
      next_q_action = (\<lambda>\<theta> g ss ss' std. ([0], [a0])),
      log_alpha = (\<lambda>\<theta>. 0),
      log_prob = (\<lambda>\<theta> ss as. map (\<lambda>a. - 1) as)\<rparr>"

definition probe_batch :: "'a \<Rightarrow> (unit, 'a) batch" where
  "probe_batch a0 =
     \<lparr>b_reward = [0], b_mask = [1], b_action = [a0], b_state = [()], b_next_s = [()],
      b_is_weights = [1]\<rparr>"

definition probe_trainer :: "'a \<Rightarrow> (unit, 'a, unit) trainer" where
  "probe_trainer a0 =
     \<lparr>t_nets = probe_nets a0,
      t_descend = (\<lambda>opt obj \<theta>. (map (map (\<lambda>x. x + 1)) \<theta>, moments opt)),
      t_descend_alpha = (\<lambda>opt obj a. (a, moments opt)),
      t_sample = (\<lambda>i. probe_batch a0),
      t_draw = (\<lambda>k. ())\<rparr>"

definition probe_optim :: optim where
  "probe_optim = \<lparr>n_steps = 0, moments = []\<rparr>"

definition probe_buffer :: "nat \<Rightarrow> replay_buffer" where
  "probe_buffer n = \<lparr>now_len = n, max_len = 8, td_error_log = []\<rparr>"

definition probe_agent :: agent where
  "probe_agent =
     \<lparr>if_use_per = False, cri = [[0]], cri_target = [[0]], cri_optim = probe_optim,
      act = [[0]], act_target = [[0]], act_optim = probe_optim\<rparr>"

definition probe_td3 :: td3_agent where
  "probe_td3 =
     \<lparr>if_use_per = False, cri = [[0]], cri_target = [[0]], cri_optim = probe_optim,
      act = [[0]], act_target = [[0]], act_optim = probe_optim,
      explore_noise = 0.1, policy_noise = 0.2, update_freq = 2\<rparr>"

definition probe_sac :: sac_agent where
  "probe_sac =
     \<lparr>if_use_per = False, cri = [[0]], cri_target = [[0]], cri_optim = probe_optim,
      act = [[0]], act_target = [[0]], act_optim = probe_optim,
      alpha_log = 0, alpha_optim = probe_optim, target_entropy = 0\<rparr>"

definition probe_modsac :: modsac_agent where
  "probe_modsac =
     \<lparr>if_use_per = False, cri = [[0]], cri_target = [[0]], cri_optim = probe_optim,
      act = [[0]], act_target = [[0]], act_optim = probe_optim,
      alpha_log = 0, alpha_optim = probe_optim, target_entropy = 0,
      obj_c = Some (sqrt (- ln 0.5))\<rparr>"

text \<open>A two-action critic that answers \<open>[0, 1]\<close> in every state.\<close>

definition probe_qnet :: "(unit, nat, unit) nets" where
  "probe_qnet = (probe_nets 0)\<lparr>q_values := (\<lambda>\<theta> ss. map (\<lambda>s. [0, 1]) ss)\<rparr>"

definition probe_dqn :: dqn_agent where
  "probe_dqn =
     \<lparr>if_use_per = False, cri = [[0]], cri_target = [[0]], cri_optim = probe_optim,
      act = [[0]], act_target = [[0]], act_optim = probe_optim,
      explore_rate = 0.25, action_dim = 2\<rparr>"



chapter \<open>Properties\<close>

section \<open>Soft update: the blend and its geometric convergence\<close>

lemma length_soft_update: "length (soft_update tars curs tau) = length tars"
  by (induction tars curs tau rule: soft_update.induct) auto

lemma same_shape_soft_update:
  "same_shape tars curs \<Longrightarrow> same_shape (soft_update tars curs tau) curs"
  unfolding same_shape_def
  by (induction tars curs tau rule: soft_update.induct) (auto simp: blend_def)

lemma soft_update_nth:
  "same_shape tars curs \<Longrightarrow> i < length tars \<Longrightarrow> j < length (tars ! i) \<Longrightarrow>
   soft_update tars curs tau ! i ! j = tars ! i ! j * (1 - tau) + curs ! i ! j * tau"
proof (induction tars curs tau arbitrary: i rule: soft_update.induct)
  case (1 tar tars cur curs tau)
  from "1.prems"(1) have len: "length tar = length cur" and rest: "same_shape tars curs"
    by (auto simp: same_shape_def)
  show ?case
  proof (cases i)
    case 0
    with "1.prems" len show ?thesis by (simp add: blend_def)
  next
    case (Suc k)
    with "1.prems" rest "1.IH" [of k] show ?thesis by simp
  qed
next
  case (2 tars tau)
  then show ?case by (simp add: same_shape_def)
next
  case (3 curs tau)
  then show ?case by simp
qed

lemma soft_update_gap:
  assumes "same_shape tars curs" "i < length tars" "j < length (tars ! i)"
  shows "soft_update tars curs tau ! i ! j - curs ! i ! j = (tars ! i ! j - curs ! i ! j) * (1 - tau)"
  using soft_update_nth [OF assms, of tau] by (simp add: algebra_simps)

lemma soft_update_times_gap:
  "same_shape tars curs \<Longrightarrow> i < length tars \<Longrightarrow> j < length (tars ! i) \<Longrightarrow>
   soft_update_times n tars curs tau ! i ! j - curs ! i ! j
     = (tars ! i ! j - curs ! i ! j) * (1 - tau) ^ n"
proof (induction n arbitrary: tars)
  case 0
  then show ?case by simp
next
  case (Suc n)
  let ?t = "soft_update tars curs tau"
  have sh: "same_shape ?t curs" using Suc.prems(1) by (rule same_shape_soft_update)
  have li: "i < length ?t" using Suc.prems(2) by (simp add: length_soft_update)
  have "map length ?t = map length tars"
    using sh Suc.prems(1) by (simp add: same_shape_def)
  then have "length (?t ! i) = length (tars ! i)"
    using Suc.prems(2) li by (metis nth_map)
  then have lj: "j < length (?t ! i)" using Suc.prems(3) by simp
  have "soft_update_times (Suc n) tars curs tau ! i ! j - curs ! i ! j
        = (?t ! i ! j - curs ! i ! j) * (1 - tau) ^ n"
    using Suc.IH [OF sh li lj] by simp
  also have "\<dots> = (tars ! i ! j - curs ! i ! j) * (1 - tau) * (1 - tau) ^ n"
    using soft_update_gap [OF Suc.prems, of tau] by simp
  finally show ?case by (simp add: mult.assoc)
qed


text \<open>
  Claim C8.  \<^verbatim>\<open>soft_update\<close> sets every entry of every paired target tensor to
  \<open>target * (1 - tau) + online * tau\<close>.  Hence, for \<open>0 < tau < 1\<close> and the online
  parameters held fixed, after \<open>n\<close> calls the distance of each target entry to its
  online entry is the initial distance times \<open>(1 - tau) ^ n\<close>; with target 0, online 1
  and tau 0.1 the target is 0.1 after one call and 0.19 after two.  At its call sites
  the blend writes the target network only: the online networks and both optimizers
  (step counters and moments) are
  what they were.
\<close>

theorem soft_update_blend_geometric:
  "(same_shape tars curs \<and> i < length tars \<and> j < length (tars ! i) \<longrightarrow>
      soft_update tars curs tau ! i ! j = tars ! i ! j * (1 - tau) + curs ! i ! j * tau \<and>
      (0 < tau \<and> tau < 1 \<longrightarrow>
        \<bar>soft_update_times n tars curs tau ! i ! j - curs ! i ! j\<bar>
          = \<bar>tars ! i ! j - curs ! i ! j\<bar> * (1 - tau) ^ n))
   \<and> soft_update_times 1 [[0]] [[1]] 0.1 = [[0.1]]
   \<and> soft_update_times 2 [[0]] [[1]] 0.1 = [[0.19]]
   \<and> cri (soft_update_cri tau a) = cri a
   \<and> cri_optim (soft_update_cri tau a) = cri_optim a
   \<and> act (soft_update_cri tau a) = act a
   \<and> act_target (soft_update_cri tau a) = act_target a
   \<and> act_optim (soft_update_cri tau a) = act_optim a
   \<and> act (soft_update_act tau a) = act a
   \<and> act_optim (soft_update_act tau a) = act_optim a
   \<and> cri (soft_update_act tau a) = cri a
   \<and> cri_target (soft_update_act tau a) = cri_target a
   \<and> cri_optim (soft_update_act tau a) = cri_optim a"
proof -
  have geo: "\<bar>soft_update_times n tars curs tau ! i ! j - curs ! i ! j\<bar>
          = \<bar>tars ! i ! j - curs ! i ! j\<bar> * (1 - tau) ^ n"
    if sh: "same_shape tars curs" "i < length tars" "j < length (tars ! i)"
      and tau: "0 < tau" "tau < 1"
  proof -
    have "0 \<le> (1 - tau) ^ n" using tau by simp
    then show ?thesis
      unfolding soft_update_times_gap [OF sh] by (simp add: abs_mult)
  qed
  have one: "soft_update_times 1 [[0]] [[1]] 0.1 = [[0.1]]"
    by (simp add: blend_def)
  have two: "soft_update_times 2 [[0]] [[1]] 0.1 = [[0.19]]"
    by (simp add: blend_def numeral_2_eq_2)
  show ?thesis
    using soft_update_nth [of tars curs i j tau] geo one two
    by (simp add: soft_update_cri_def soft_update_act_def)
qed

theorem soft_update_blend_geometric_witness:
  "same_shape [[0]] [[1]] \<and> (0::nat) < length [[0::real]] \<and> (0::nat) < length ([[0::real]] ! 0)
   \<and> (0::real) < 0.1 \<and> (0.1::real) < 1
   \<and> soft_update [[0]] [[1]] 0.1 ! 0 ! 0 = 0.1
   \<and> \<bar>soft_update_times 2 [[0]] [[1]] 0.1 ! 0 ! 0 - 1\<bar> = 0.81"
proof -
  have pre: "same_shape [[0]] [[1]] \<and> (0::nat) < length [[0::real]] \<and> (0::nat) < length ([[0::real]] ! 0)"
    by (simp add: same_shape_def)
  have tau: "(0::real) < 0.1 \<and> (0.1::real) < 1" by simp
  from soft_update_blend_geometric [where tars = "[[0]]" and curs = "[[1]]" and i = 0 and j = 0
      and tau = "0.1" and n = 2]
  have "soft_update [[0]] [[1]] 0.1 ! 0 ! 0 = [[0::real]] ! 0 ! 0 * (1 - 0.1) + [[1::real]] ! 0 ! 0 * 0.1
        \<and> \<bar>soft_update_times 2 [[0]] [[1]] 0.1 ! 0 ! 0 - [[1::real]] ! 0 ! 0\<bar>
          = \<bar>[[0::real]] ! 0 ! 0 - [[1::real]] ! 0 ! 0\<bar> * (1 - 0.1) ^ 2"
    using pre tau by blast
  then show ?thesis using pre tau by (simp add: power2_eq_square)
qed

section \<open>Generalised advantage estimation\<close>

declare spec_r_sum.simps [simp del] spec_prev_advantage.simps [simp del]

lemma gae_body_inv:
  assumes "gae_inv lam reward msk val n (Suc k) s" "k < n"
  shows "gae_inv lam reward msk val n k (gae_body lam reward msk val k s)"
proof -
  from assms have len: "length (ary_r_sum s) = n" "length (ary_advantage s) = n"
    and pr: "pre_r_sum s = spec_r_sum reward msk n (Suc k)"
    and pa: "pre_advantage s = spec_prev_advantage lam reward msk val n (Suc k)"
    and old: "\<And>i. Suc k \<le> i \<Longrightarrow> i < n \<Longrightarrow>
            ary_r_sum s ! i = spec_r_sum reward msk n i
            \<and> ary_advantage s ! i = spec_advantage lam reward msk val n i"
    by (auto simp: gae_inv_def)
  have r: "spec_r_sum reward msk n k = reward ! k + msk ! k * spec_r_sum reward msk n (Suc k)"
    using assms(2) by (subst spec_r_sum.simps) simp
  have a: "spec_prev_advantage lam reward msk val n k
           = val ! k + spec_advantage lam reward msk val n k * lam"
    using assms(2) by (subst spec_prev_advantage.simps) (simp add: spec_advantage_def)
  have new: "ary_r_sum (gae_body lam reward msk val k s) ! i = spec_r_sum reward msk n i
            \<and> ary_advantage (gae_body lam reward msk val k s) ! i = spec_advantage lam reward msk val n i"
    if "k \<le> i" "i < n" for i
  proof (cases "i = k")
    case True
    then show ?thesis
      using len assms(2) pr pa r by (simp add: gae_body_def Let_def spec_advantage_def)
  next
    case False
    with that have "Suc k \<le> i" by simp
    from old [OF this that(2)] False show ?thesis
      by (simp add: gae_body_def Let_def)
  qed
  have "pre_r_sum (gae_body lam reward msk val k s) = spec_r_sum reward msk n k"
    using len assms(2) pr r by (simp add: gae_body_def Let_def)
  moreover have "pre_advantage (gae_body lam reward msk val k s)
                 = spec_prev_advantage lam reward msk val n k"
    using len assms(2) pa a by (simp add: gae_body_def Let_def spec_advantage_def)
  ultimately show ?thesis
    using len new by (simp add: gae_inv_def gae_body_def Let_def)
qed

lemma gae_loop_inv:
  "gae_inv lam reward msk val n k s \<Longrightarrow> k \<le> n \<Longrightarrow>
   gae_inv lam reward msk val n 0 (gae_loop lam reward msk val k s)"
proof (induction k arbitrary: s)
  case 0
  then show ?case by simp
next
  case (Suc k)
  then show ?case using gae_body_inv [of lam reward msk val n k s] by simp
qed

lemma gae_inv_init:
  "gae_inv lam reward msk val n n
     \<lparr>ary_r_sum = replicate n 0, ary_advantage = replicate n 0, pre_r_sum = 0, pre_advantage = 0\<rparr>"
  by (simp add: gae_inv_def spec_r_sum.simps [of _ _ n n] spec_prev_advantage.simps [of _ _ _ _ n n])

text \<open>
  Claim C7.  For a buffer of length \<open>n \<ge> 1\<close> and reward, mask and value arrays of
  length \<open>n\<close>, \<^verbatim>\<open>get_reward_sum_gae\<close> returns two arrays of length \<open>n\<close> whose entries
  are those of the stated backward recursion (both running values start at 0):
  \<open>r_sum[i] = reward[i] + mask[i] * r_sum[i+1]\<close>,
  \<open>advantage[i] = reward[i] + mask[i] * (prevAdvantage - value[i])\<close> and then
  \<open>prevAdvantage = value[i] + advantage[i] * lambda_gae\<close>; the agent's
  \<open>lambda_gae\<close> is 0.98 unless it is set otherwise.
\<close>

theorem get_reward_sum_gae_recursion:
  assumes "1 \<le> n" "length reward = n" "length msk = n" "length val = n"
  shows "\<exists>r_sum advantage.
           get_reward_sum_gae self n reward msk val = Inr (r_sum, advantage)
           \<and> length r_sum = n \<and> length advantage = n
           \<and> (\<forall>i<n. r_sum ! i = reward ! i + msk ! i * (if Suc i < n then r_sum ! Suc i else 0)
                    \<and> r_sum ! i = spec_r_sum reward msk n i
                    \<and> advantage ! i = reward ! i + msk ! i *
                         (spec_prev_advantage (lambda_gae_adv self) reward msk val n (Suc i) - val ! i)
                    \<and> spec_prev_advantage (lambda_gae_adv self) reward msk val n i
                         = val ! i + advantage ! i * lambda_gae_adv self)
           \<and> spec_prev_advantage (lambda_gae_adv self) reward msk val n n = 0
           \<and> lambda_gae_adv AgentPPO_init = 0.98"
proof -
  let ?lam = "lambda_gae_adv self"
  let ?s = "gae_loop ?lam reward msk val n
              \<lparr>ary_r_sum = replicate n 0, ary_advantage = replicate n 0, pre_r_sum = 0, pre_advantage = 0\<rparr>"
  have inv: "gae_inv ?lam reward msk val n 0 ?s"
    by (rule gae_loop_inv [OF gae_inv_init]) simp
  have res: "get_reward_sum_gae self n reward msk val = Inr (ary_r_sum ?s, ary_advantage ?s)"
    using assms by (simp add: get_reward_sum_gae_def Let_def)
  have ent: "ary_r_sum ?s ! i = spec_r_sum reward msk n i"
            "ary_advantage ?s ! i = spec_advantage ?lam reward msk val n i" if "i < n" for i
    using inv that by (auto simp: gae_inv_def)
  have step: "ary_r_sum ?s ! i = reward ! i + msk ! i * (if Suc i < n then ary_r_sum ?s ! Suc i else 0)"
    if "i < n" for i
  proof (cases "Suc i < n")
    case True
    then show ?thesis
      using ent(1) [OF that] ent(1) [OF True] that by (subst (asm) spec_r_sum.simps) simp
  next
    case False
    with that have "Suc i = n" by simp
    then show ?thesis
      using ent(1) [OF that] that
      by (simp add: spec_r_sum.simps [of _ _ n i] spec_r_sum.simps [of _ _ n n])
  qed
  have prev: "spec_prev_advantage ?lam reward msk val n i = val ! i + ary_advantage ?s ! i * ?lam"
    if "i < n" for i
    using ent(2) [OF that] that
    by (subst spec_prev_advantage.simps) (simp add: spec_advantage_def)
  have "spec_prev_advantage ?lam reward msk val n n = 0"
    by (simp add: spec_prev_advantage.simps [of _ _ _ _ n n])
  moreover have "length (ary_r_sum ?s) = n" "length (ary_advantage ?s) = n"
    using inv by (auto simp: gae_inv_def)
  ultimately show ?thesis
    using res ent step prev by (simp add: spec_advantage_def AgentPPO_init_def)
qed

theorem get_reward_sum_gae_recursion_witness:
  "(1::nat) \<le> 2 \<and> length [1, 2::real] = 2 \<and> length [1/2, 1/2::real] = 2 \<and> length [3, 4::real] = 2
   \<and> (\<exists>r_sum advantage.
         get_reward_sum_gae AgentPPO_init 2 [1, 2] [1/2, 1/2] [3, 4] = Inr (r_sum, advantage)
         \<and> r_sum ! 1 = 2 \<and> r_sum ! 0 = 2 \<and> advantage ! 1 = 0 \<and> advantage ! 0 = 3/2)"
proof -
  have pre: "(1::nat) \<le> 2" "length [1, 2::real] = 2" "length [1/2, 1/2::real] = 2"
    "length [3, 4::real] = 2"
    by simp_all
  let ?prev = "spec_prev_advantage (lambda_gae_adv AgentPPO_init) [1, 2] [1/2, 1/2] [3, 4] 2"
  from get_reward_sum_gae_recursion [OF pre, of AgentPPO_init]
  obtain r_sum advantage where
    res: "get_reward_sum_gae AgentPPO_init 2 [1, 2] [1/2, 1/2] [3, 4] = Inr (r_sum, advantage)"
    and rec: "\<And>i. i < 2 \<Longrightarrow>
        r_sum ! i = [1, 2] ! i + [1/2, 1/2] ! i * (if Suc i < 2 then r_sum ! Suc i else 0)
        \<and> advantage ! i = [1, 2] ! i + [1/2, 1/2] ! i * (?prev (Suc i) - [3, 4] ! i)
        \<and> ?prev i = [3, 4] ! i + advantage ! i * lambda_gae_adv AgentPPO_init"
    and last: "?prev 2 = 0"
    by blast
  have r1: "r_sum ! 1 = 2" using rec [of 1] by simp
  have r0: "r_sum ! 0 = 2" using rec [of 0] r1 by simp
  have a1: "advantage ! 1 = 0" using rec [of 1] last by (simp add: numeral_2_eq_2)
  have p1: "?prev 1 = 4" using rec [of 1] a1 by simp
  have a0: "advantage ! 0 = 3/2" using rec [of 0] p1 by simp
  show ?thesis using res r1 r0 a1 a0 by simp
qed

section \<open>Trajectory splice of \<^verbatim>\<open>AgentPPO.explore_env\<close>\<close>

lemma explore_body_temp:
  "length (trajectory_temp (explore_body io i st)) = Suc (length (trajectory_temp st))
   \<and> (last_done (explore_body io i st) = i \<or> last_done (explore_body io i st) = last_done st)"
  by (simp add: explore_body_def Let_def split: prod.splits)

lemma explore_fold_inv:
  "length (trajectory_temp st) = lo \<Longrightarrow> last_done st \<le> lo \<Longrightarrow>
   (let st' = fold (explore_body io) [lo..<lo + k] st
    in length (trajectory_temp st') = lo + k \<and> last_done st' \<le> lo + k
       \<and> (0 < k \<longrightarrow> last_done st' < lo + k \<or> last_done st' = last_done st))"
proof (induction k arbitrary: st)
  case 0
  then show ?case by simp
next
  case (Suc k)
  let ?mid = "fold (explore_body io) [lo..<lo + k] st"
  from Suc.IH [OF Suc.prems] have
    len: "length (trajectory_temp ?mid) = lo + k" and ld: "last_done ?mid \<le> lo + k"
    and lt: "0 < k \<Longrightarrow> last_done ?mid < lo + k \<or> last_done ?mid = last_done st"
    by (simp_all add: Let_def)
  have fold_eq: "fold (explore_body io) [lo..<lo + Suc k] st = explore_body io (lo + k) ?mid"
    by simp
  from explore_body_temp [of io "lo + k" ?mid] len ld lt
  show ?case unfolding fold_eq Let_def by (cases "k = 0") auto
qed

text \<open>
  Whenever at least one step is taken, the list returned for training and the stored
  tail overlap: the returned list is the old tail followed by the first \<open>k + 1\<close> new
  transitions, and the stored tail starts again at transition \<open>k\<close>, so together they
  hold one transition more than was generated.
\<close>

lemma explore_env_overlap:
  assumes "explore_env io self e g n = Inr (ret, self', e', g')" "0 < n"
  shows "\<exists>tail0 temp k. length temp = n \<and> k < n
           \<and> hd (trajectory_list self) = tail0
           \<and> ret = tail0 @ take (Suc k) temp
           \<and> hd (trajectory_list self') = drop k temp
           \<and> length ret + length (hd (trajectory_list self')) = length tail0 + n + 1"
proof -
  from assms(1) obtain s0 others tail0 tails where
    s: "states self = s0 # others" and t: "trajectory_list self = tail0 # tails"
    by (auto simp: explore_env_def Let_def split: list.splits)
  let ?st = "fold (explore_body io) [0..<n]
               \<lparr>trajectory_temp = [], ex_state = s0, last_done = 0, ex_env = e, ex_rng = g\<rparr>"
  have inv: "length (trajectory_temp ?st) = n \<and> (last_done ?st < n \<or> last_done ?st = 0)"
    using explore_fold_inv [of "\<lparr>trajectory_temp = [], ex_state = s0, last_done = 0, ex_env = e, ex_rng = g\<rparr>" 0 io n]
      assms(2)
    by (simp add: Let_def)
  with assms(2) have k: "last_done ?st < n" by auto
  from assms(1) s t have
    ret: "ret = tail0 @ take (Suc (last_done ?st)) (trajectory_temp ?st)"
    and tl: "hd (trajectory_list self') = drop (last_done ?st) (trajectory_temp ?st)"
    by (auto simp: explore_env_def Let_def)
  have "length ret + length (hd (trajectory_list self')) = length tail0 + n + 1"
    using ret tl inv k by simp
  with inv k ret tl t show ?thesis by (intro exI [of _ tail0] exI [of _ "trajectory_temp ?st"] exI [of _ "last_done ?st"]) simp
qed

text \<open>
  Claim C1 (the code departs from it).  Two consecutive calls, of three and of two
  steps, from an empty tail; the episode ends at the second and at the fifth step, so the
  transitions generated are \<open>t0, t1, t2\<close> and then \<open>t3, t4\<close>.  The first call returns
  \<open>[t0, t1]\<close> for training and stores \<open>[t1, t2]\<close>: the terminal transition \<open>t1\<close> is
  in both.  The second call returns \<open>[t1, t2, t3, t4]\<close>, so \<open>t1\<close> is trained on twice,
  and stores \<open>[t4]\<close>, which it has just returned.
\<close>

theorem explore_env_duplicates_terminal_transition:
  "explore_env (counting_io [1, 4]) \<lparr>states = [0], trajectory_list = [[]]\<rparr> 0 () 3
     = Inr ([tr 0 False, tr 1 True],
            \<lparr>states = [3], trajectory_list = [[tr 1 True, tr 2 False]]\<rparr>, 3, ())
   \<and> explore_env (counting_io [1, 4]) \<lparr>states = [3], trajectory_list = [[tr 1 True, tr 2 False]]\<rparr> 3 () 2
     = Inr ([tr 1 True, tr 2 False, tr 3 False, tr 4 True],
            \<lparr>states = [5], trajectory_list = [[tr 4 True]]\<rparr>, 5, ())"
  by (simp add: explore_env_def explore_body_def counting_io_def tr_def Let_def upt_rec
      numeral_3_eq_3 numeral_2_eq_2)

text \<open>Without any episode end the first transition alone is returned for training,
  although its episode is not complete, and it stays in the stored tail as well.\<close>

lemma explore_env_no_done:
  "explore_env (counting_io []) \<lparr>states = [0], trajectory_list = [[]]\<rparr> 0 () 2
     = Inr ([tr 0 False],
            \<lparr>states = [2], trajectory_list = [[tr 0 False, tr 1 False]]\<rparr>, 2, ())"
  by (simp add: explore_env_def explore_body_def counting_io_def tr_def Let_def upt_rec numeral_2_eq_2)

text \<open>The vectorized variant splices each environment's list with the same two slices:
  two environments, three steps, episode ends at the second step of environment 0 and
  at the first step of environment 1.\<close>

lemma explore_vec_env_duplicates_terminal_transitions:
  "explore_vec_env (counting_vec_io [1] [0]) \<lparr>states = [0, 10], trajectory_list = [[], []]\<rparr> 0 () 3
     = Inr ([tr 0 False, tr 1 True, tr 10 True],
            \<lparr>states = [3, 13],
             trajectory_list = [[tr 1 True, tr 2 False], [tr 10 True, tr 11 False, tr 12 False]]\<rparr>,
            3, ())"
  by (simp add: explore_vec_env_def explore_vec_body_def counting_vec_io_def tr_def Let_def upt_rec
      numeral_3_eq_3 numeral_2_eq_2)

section \<open>The bootstrap target of \<^verbatim>\<open>AgentSAC\<close>\<close>




lemma t_scale_nth: "i < length xs \<Longrightarrow> t_scale xs c ! i = xs ! i * c"
  by (simp add: t_scale_def)

lemma length_t_ops [simp]:
  "length (t_add xs ys) = min (length xs) (length ys)"
  "length (t_mul xs ys) = min (length xs) (length ys)"
  "length (t_min xs ys) = min (length xs) (length ys)"
  "length (t_sub xs ys) = min (length xs) (length ys)"
  "length (t_scale xs c) = length xs"
  "length (t_abs xs) = length xs"
  by (simp_all add: t_add_def t_mul_def t_min_def t_sub_def t_scale_def t_abs_def)




text \<open>
  Code and specification differ by the sign convention of the value
  \<^verbatim>\<open>get_action_logprob\<close> returns, and by nothing else: for every network the code's
  target is the specified one for the policy whose log-probability is the negation
  of that value.
\<close>

lemma SAC_q_label_spec_of_negated:
  "SAC_q_label net self b draw alpha
   = spec_SAC_q_label
       (net\<lparr>log_prob := (\<lambda>\<theta> ss as. map uminus (snd (get_action_logprob net \<theta> draw ss)))\<rparr>)
       self b draw alpha"
  by (simp add: SAC_q_label_def spec_SAC_q_label_def Let_def t_scale_def spec_entropy_bonus_def
      o_def mult.commute split: prod.splits)



section \<open>Prioritized replay: importance weights and the TD-error feedback\<close>

lemma DDPG_per_reports_td_error:
  "td_error_log (snd (snd (DDPG_get_obj_critic_per net self buffer b)))
     = td_error_log buffer
       @ [t_abs (t_sub (DDPG_q_label net self b) (critic net (cri self) (b_state b) (b_action b)))]"
  by (simp add: DDPG_get_obj_critic_per_def td_error_update_def Let_def)

lemma TD3_per_reports_td_error:
  "td_error_log (snd (snd (TD3_get_obj_critic_per net self buffer b draw)))
     = td_error_log buffer
       @ [t_abs (t_sub (TD3_q_label net self b draw)
                   (t_min (fst (get_q1_q2 net (cri self) (b_state b) (b_action b)))
                          (snd (get_q1_q2 net (cri self) (b_state b) (b_action b)))))]"
  by (simp add: TD3_get_obj_critic_per_def td_error_update_def Let_def split: prod.splits)

lemma DQN_per_weights_loss:
  "fst (DQN_get_obj_critic_per net self buffer b) \<theta>
     = t_mean (t_mul (criterion_none (gather (q_values net \<theta> (b_state b)) (b_action b))
                                     (DQN_q_label net self b))
                     (b_is_weights b))"
  by (simp add: DQN_get_obj_critic_per_def Let_def)

text \<open>
  Claim C3 (the code departs from it).  \<^verbatim>\<open>AgentDQN.get_obj_critic_per\<close> multiplies the
  per-sample loss by the importance weights, but it never calls
  \<^verbatim>\<open>buffer.td_error_update\<close>: whatever the batch, the buffer has received no TD error
  when the call returns, while the variants of DDPG, TD3 and SAC report theirs.
\<close>

theorem DQN_per_never_reports_td_error:
  "snd (snd (DQN_get_obj_critic_per net self buffer b)) = buffer
   \<and> td_error_log (snd (snd (DQN_get_obj_critic_per net self buffer b))) = td_error_log buffer"
  by (simp add: DQN_get_obj_critic_per_def Let_def)

section \<open>Loop bounds and optimizer step counts\<close>

subsection \<open>Double rounding\<close>

lemma round_even_of_int [simp]: "round_even (of_int m) = m"
  by (simp add: round_even_def)

lemma double_round_dyadic:
  fixes m j :: int
  assumes lo: "2 ^ 52 \<le> \<bar>m\<bar>" and hi: "\<bar>m\<bar> < 2 ^ 53"
  shows "double_round (of_int m * 2 powr of_int j) = of_int m * 2 powr of_int j"
proof -
  let ?x = "of_int m * 2 powr of_int j :: real"
  have m0: "m \<noteq> 0" using lo by auto
  then have x0: "?x \<noteq> 0" by simp
  have ax: "\<bar>?x\<bar> = of_int \<bar>m\<bar> * 2 powr of_int j" by (simp add: abs_mult)
  have l: "(2::real) ^ 52 \<le> of_int \<bar>m\<bar>" using lo by (metis of_int_le_iff of_int_numeral of_int_power)
  have h: "of_int \<bar>m\<bar> < (2::real) ^ 53" using hi by (metis of_int_less_iff of_int_numeral of_int_power)
  have p52: "(2::real) powr of_int (52 + j) = 2 ^ 52 * 2 powr of_int j"
    by (simp add: powr_add)
  have p53: "(2::real) powr of_int (52 + j + 1) = 2 ^ 53 * 2 powr of_int j"
    by (simp add: powr_add)
  have "\<lfloor>log 2 \<bar>?x\<bar>\<rfloor> = 52 + j"
  proof (subst floor_log_eq_powr_iff)
    show "0 < \<bar>?x\<bar>" using x0 by simp
    show "(1::real) < 2" by simp
    show "2 powr of_int (52 + j) \<le> \<bar>?x\<bar> \<and> \<bar>?x\<bar> < 2 powr of_int (52 + j + 1)"
      unfolding p52 p53 ax using l h by simp
  qed
  then have u: "(2::real) powr (of_int \<lfloor>log 2 \<bar>?x\<bar>\<rfloor> - 52) = 2 powr of_int j" by simp
  have "?x / 2 powr of_int j = of_int m" by simp
  then show ?thesis
    using x0 unfolding double_round_def Let_def u by (simp del: of_int_mult)
qed

lemma double_round_exact [simp]:
  "double_round 0 = 0" "double_round 1 = 1" "double_round 2 = 2" "double_round 3 = 3"
  "double_round 6 = 6" "double_round (1 / 2) = 1 / 2" "double_round (3 / 2) = 3 / 2"
proof -
  show "double_round 0 = 0" by (simp add: double_round_def)
  have e: "(2::real) powr (- 52) = 1 / 2 ^ 52" "(2::real) powr (- 51) = 1 / 2 ^ 51"
    "(2::real) powr (- 50) = 1 / 2 ^ 50" "(2::real) powr (- 53) = 1 / 2 ^ 53"
    by (simp_all add: powr_minus_divide)
  show "double_round 1 = 1"
    using double_round_dyadic [of "2 ^ 52" "- 52"] by (simp add: e)
  show "double_round 2 = 2"
    using double_round_dyadic [of "2 ^ 52" "- 51"] by (simp add: e)
  show "double_round 3 = 3"
    using double_round_dyadic [of "3 * 2 ^ 51" "- 51"] by (simp add: e)
  show "double_round 6 = 6"
    using double_round_dyadic [of "3 * 2 ^ 51" "- 50"] by (simp add: e)
  show "double_round (1 / 2) = 1 / 2"
    using double_round_dyadic [of "2 ^ 52" "- 53"] by (simp add: e)
  show "double_round (3 / 2) = 3 / 2"
    using double_round_dyadic [of "3 * 2 ^ 51" "- 52"] by (simp add: e)
qed


lemma double_round_in_binade:
  fixes e :: int
  assumes "2 powr of_int e \<le> \<bar>x\<bar>" "\<bar>x\<bar> < 2 powr of_int (e + 1)"
  shows "double_round x
         = 2 powr (of_int e - 52) * of_int (round_even (x / 2 powr (of_int e - 52)))"
proof -
  have "0 < (2::real) powr of_int e" by simp
  with assms(1) have pos: "0 < \<bar>x\<bar>" by linarith
  then have x0: "x \<noteq> 0" by auto
  have "\<lfloor>log 2 \<bar>x\<bar>\<rfloor> = e"
    using assms by (subst floor_log_eq_powr_iff [OF pos]) simp_all
  then show ?thesis using x0 by (simp add: double_round_def Let_def)
qed

text \<open>
  Two bounds on which the rounding decides the number of iterations.  With one sample,
  batch size 49 and repeat factor 49 the quotient \<open>1 / 49\<close> is rounded down, the
  product is \<open>1 - 2 ^ - 53\<close> and \<^verbatim>\<open>int\<close> gives 0; evaluated in the other order
  (\<^verbatim>\<open>now_len * repeat_times / batch_size\<close>, as \<^verbatim>\<open>AgentSAC\<close> does) the bound is 1.  With
  three samples, batch size 1 and the double nearest to \<open>1 / 3\<close> as repeat factor the
  product \<open>1 - 2 ^ - 54\<close> is a tie and rounds to 1.
\<close>

lemma double_round_one_49th: "double_round (1 / 49) = 5882252574524729 / 2 ^ 58"
proof -
  have "double_round (1 / 49)
        = 2 powr (of_int (- 6) - 52) * of_int (round_even ((1 / 49) / 2 powr (of_int (- 6) - 52)))"
    by (rule double_round_in_binade) (simp_all add: powr_minus_divide)
  also have "(2::real) powr (of_int (- 6) - 52) = 1 / 2 ^ 58"
    by (simp add: powr_minus_divide)
  also have "round_even ((1 / 49) / (1 / 2 ^ 58)) = 5882252574524729"
    by (simp add: round_even_def Let_def)
  finally show ?thesis by simp
qed

lemma bound_1_49_49:
  "\<lfloor>fmul (fdiv 1 49) 49\<rfloor> = 0" "\<lfloor>fdiv (fmul 1 49) 49\<rfloor> = 1"
proof -
  have "fmul (fdiv 1 49) 49 = double_round (288230376151711721 / 2 ^ 58)"
    by (simp add: fmul_def fdiv_def double_round_one_49th)
  also have "\<dots> = 2 powr (of_int (- 1) - 52)
                   * of_int (round_even ((288230376151711721 / 2 ^ 58) / 2 powr (of_int (- 1) - 52)))"
    by (rule double_round_in_binade) (simp_all add: powr_minus_divide)
  also have "(2::real) powr (of_int (- 1) - 52) = 1 / 2 ^ 53"
    by (simp add: powr_minus_divide)
  also have "round_even ((288230376151711721 / 2 ^ 58) / (1 / 2 ^ 53)) = 9007199254740991"
    by (simp add: round_even_def Let_def)
  finally have v: "fmul (fdiv 1 49) 49 = 9007199254740991 / 2 ^ 53" by simp
  show "\<lfloor>fmul (fdiv 1 49) 49\<rfloor> = 0" unfolding v by simp
  have "double_round 49 = 49"
    using double_round_dyadic [of "49 * 2 ^ 47" "- 47"] by (simp add: powr_minus_divide)
  then show "\<lfloor>fdiv (fmul 1 49) 49\<rfloor> = 1" by (simp add: fmul_def fdiv_def)
qed

lemma bound_3_1_third:
  "\<lfloor>fmul (fdiv 3 1) (6004799503160661 / 2 ^ 54)\<rfloor> = 1"
proof -
  have "fmul (fdiv 3 1) (6004799503160661 / 2 ^ 54) = double_round (18014398509481983 / 2 ^ 54)"
    by (simp add: fmul_def fdiv_def)
  also have "\<dots> = 2 powr (of_int (- 1) - 52)
                   * of_int (round_even ((18014398509481983 / 2 ^ 54) / 2 powr (of_int (- 1) - 52)))"
    by (rule double_round_in_binade) (simp_all add: powr_minus_divide)
  also have "(2::real) powr (of_int (- 1) - 52) = 1 / 2 ^ 53"
    by (simp add: powr_minus_divide)
  also have "round_even ((18014398509481983 / 2 ^ 54) / (1 / 2 ^ 53)) = 9007199254740992"
    by (simp add: round_even_def Let_def)
  finally show ?thesis by simp
qed


lemma double_round_49: "double_round 49 = 49"
  using double_round_dyadic [of "49 * 2 ^ 47" "- 47"] by (simp add: powr_minus_divide)

subsection \<open>Bounds and ranges\<close>

lemma nat_py_int: "nat (py_int x) = nat \<lfloor>x\<rfloor>"
  by (auto simp: py_int_def nat_eq_iff2 ceiling_le_zero dest: order_less_imp_le)

lemma py_int_of_int [simp]: "py_int (of_int k) = k"
  by (simp add: py_int_def)

text \<open>The number of iterations is the floor of the double the code computes (none
  when it is negative).\<close>

lemma nat_bound_floor:
  "nat (bound_div_mul n b r) = nat \<lfloor>fmul (fdiv (real n) (real b)) r\<rfloor>"
  "nat (bound_mul_div n b r) = nat \<lfloor>fdiv (fmul (real n) r) (real b)\<rfloor>"
  by (simp_all add: bound_div_mul_def bound_mul_div_def nat_py_int)

lemma length_py_range [simp]: "length (py_range lo hi) = nat hi - lo"
  by (simp add: py_range_def)


lemma py_range_0: "py_range 0 hi = [0..<nat hi]"
  by (simp add: py_range_def)

text \<open>The bounds at the inputs used below, and at two inputs on which the rounding
  decides: \<^verbatim>\<open>int(1 / 49 * 49)\<close> is 0 and \<^verbatim>\<open>int(1 * 49 / 49)\<close> is 1; with the double nearest
  to \<open>1 / 3\<close> as repeat factor, \<^verbatim>\<open>int(3 / 1 * repeat_times)\<close> is 1.\<close>

lemma bound_values:
  "bound_div_mul 1 2 1 = 0" "bound_mul_div 1 2 1 = 0"
  "bound_div_mul 3 2 1 = 1" "bound_mul_div 3 2 1 = 1"
  "bound_div_mul 2 1 1 = 2" "bound_mul_div 2 1 1 = 2"
  "bound_div_mul 6 2 1 = 3" "bound_mul_div 6 2 1 = 3"
  by (simp_all add: bound_div_mul_def bound_mul_div_def fmul_def fdiv_def py_int_def)

lemma bound_values_Suc:
  "bound_div_mul (Suc 0) 2 1 = 0" "bound_mul_div (Suc 0) 2 1 = 0"
  "bound_div_mul 2 (Suc 0) 1 = 2" "bound_mul_div 2 (Suc 0) 1 = 2"
  using bound_values by simp_all

lemma bound_rounding_decides:
  "bound_div_mul 1 49 49 = 0" "bound_mul_div 1 49 49 = 1"
  "bound_div_mul 3 1 (6004799503160661 / 2 ^ 54) = 1"
  "\<lfloor>real 1 / real 49 * (49::real)\<rfloor> = 1"
  "\<lfloor>real 3 / real 1 * (6004799503160661 / 2 ^ 54 :: real)\<rfloor> = 0"
proof -
  have nn: "0 \<le> fmul (fdiv 1 49) 49" "0 \<le> fdiv (fmul 1 49) 49"
    "0 \<le> fmul (fdiv 3 1) (6004799503160661 / 2 ^ 54)"
    using bound_1_49_49 bound_3_1_third by linarith+
  show "bound_div_mul 1 49 49 = 0" "bound_mul_div 1 49 49 = 1"
    "bound_div_mul 3 1 (6004799503160661 / 2 ^ 54) = 1"
    using nn bound_1_49_49 bound_3_1_third
    by (simp_all add: bound_div_mul_def bound_mul_div_def py_int_def)
  show "\<lfloor>real 1 / real 49 * (49::real)\<rfloor> = 1" by simp
  show "\<lfloor>real 3 / real 1 * (6004799503160661 / 2 ^ 54 :: real)\<rfloor> = 0" by simp
qed

subsection \<open>Loops\<close>

lemma for_loop_count:
  assumes step: "\<And>i st. P st \<Longrightarrow> P (fst (body i st)) \<and> snd (body i st) = None
                           \<and> f (fst (body i st)) = Suc (f st)"
    and "P st"
  shows "P (fst (for_loop body xs st)) \<and> snd (for_loop body xs st) = None
         \<and> f (fst (for_loop body xs st)) = f st + length xs"
  using \<open>P st\<close>
proof (induction xs arbitrary: st)
  case Nil
  then show ?case by simp
next
  case (Cons i xs)
  from step [OF Cons.prems, of i] obtain st' where b: "body i st = (st', None)"
    and P: "P st'" and f: "f st' = Suc (f st)"
    by (cases "body i st") auto
  from Cons.IH [OF P] f show ?case by (simp add: b)
qed

lemma for_loop_log:
  assumes step: "\<And>i st. P st \<Longrightarrow> P (fst (body i st)) \<and> snd (body i st) = None
                           \<and> lg (fst (body i st)) = lg st @ (if c i then [i] else [])"
    and "P st"
  shows "lg (fst (for_loop body xs st)) = lg st @ filter c xs"
  using \<open>P st\<close>
proof (induction xs arbitrary: st)
  case Nil
  then show ?case by simp
next
  case (Cons i xs)
  from step [OF Cons.prems, of i] obtain st' where b: "body i st = (st', None)"
    and P: "P st'" and l: "lg st' = lg st @ (if c i then [i] else [])"
    by (cases "body i st") auto
  from Cons.IH [OF P] l show ?case by (simp add: b)
qed

lemma for_loop_Cons_ok:
  "snd (body i st) = None \<Longrightarrow> for_loop body (i # xs) st = for_loop body xs (fst (body i st))"
  by (cases "body i st") auto

text \<open>A loop whose first iteration raises stops there, with the state it started from
  if the iteration left it unchanged.\<close>

lemma for_loop_raises_at_once:
  assumes "\<And>i. body i st = (st, Some e)" "xs \<noteq> []"
  shows "for_loop body xs st = (st, Some e)"
  using assms by (cases xs) simp_all

lemma for_loop_preserve:
  assumes "\<And>i st. g (fst (body i st)) = g st"
  shows "g (fst (for_loop body xs st)) = g st"
proof (induction xs arbitrary: st)
  case Nil
  then show ?case by simp
next
  case (Cons i xs)
  show ?case
  proof (cases "body i st")
    case (Pair st' e)
    with assms [of i st] have g: "g st' = g st" by simp
    show ?thesis
    proof (cases e)
      case None
      with Pair Cons.IH [of st'] g show ?thesis by simp
    next
      case (Some err)
      with Pair g show ?thesis by simp
    qed
  qed
qed

lemma step_cri_fields [simp]:
  "n_steps (cri_optim (step_cri w obj self)) = Suc (n_steps (cri_optim self))"
  "act (step_cri w obj self) = act self"
  "act_optim (step_cri w obj self) = act_optim self"
  "act_target (step_cri w obj self) = act_target self"
  "cri_target (step_cri w obj self) = cri_target self"
  "if_use_per (step_cri w obj self) = if_use_per self"
  "agent.more (step_cri w obj self) = agent.more self"
  by (simp_all add: step_cri_def optim_update_def Let_def split: prod.splits)

lemma step_act_fields [simp]:
  "n_steps (act_optim (step_act w obj self)) = Suc (n_steps (act_optim self))"
  "cri (step_act w obj self) = cri self"
  "cri_optim (step_act w obj self) = cri_optim self"
  "act_target (step_act w obj self) = act_target self"
  "cri_target (step_act w obj self) = cri_target self"
  "if_use_per (step_act w obj self) = if_use_per self"
  "agent.more (step_act w obj self) = agent.more self"
  by (simp_all add: step_act_def optim_update_def Let_def split: prod.splits)

lemma soft_update_cri_fields [simp]:
  "cri (soft_update_cri tau self) = cri self"
  "cri_optim (soft_update_cri tau self) = cri_optim self"
  "act (soft_update_cri tau self) = act self"
  "act_optim (soft_update_cri tau self) = act_optim self"
  "act_target (soft_update_cri tau self) = act_target self"
  "cri_target (soft_update_cri tau self) = soft_update (cri_target self) (cri self) tau"
  "if_use_per (soft_update_cri tau self) = if_use_per self"
  "agent.more (soft_update_cri tau self) = agent.more self"
  by (simp_all add: soft_update_cri_def)

lemma soft_update_act_fields [simp]:
  "cri (soft_update_act tau self) = cri self"
  "cri_optim (soft_update_act tau self) = cri_optim self"
  "act (soft_update_act tau self) = act self"
  "act_optim (soft_update_act tau self) = act_optim self"
  "cri_target (soft_update_act tau self) = cri_target self"
  "act_target (soft_update_act tau self) = soft_update (act_target self) (act self) tau"
  "if_use_per (soft_update_act tau self) = if_use_per self"
  "agent.more (soft_update_act tau self) = agent.more self"
  by (simp_all add: soft_update_act_def)

lemma step_alpha_fields [simp]:
  "cri (step_alpha w obj self) = cri self"
  "cri_optim (step_alpha w obj self) = cri_optim self"
  "act (step_alpha w obj self) = act self"
  "act_optim (step_alpha w obj self) = act_optim self"
  "cri_target (step_alpha w obj self) = cri_target self"
  "act_target (step_alpha w obj self) = act_target self"
  by (simp_all add: step_alpha_def Let_def split: prod.splits)

lemma td3_fields [simp]:
  "update_freq (step_cri w obj self) = update_freq self"
  "update_freq (step_act w obj self) = update_freq self"
  "update_freq (soft_update_cri tau self) = update_freq self"
  "update_freq (soft_update_act tau self) = update_freq self"
  "policy_noise (step_cri w obj self) = policy_noise self"
  "policy_noise (step_act w obj self) = policy_noise self"
  "policy_noise (soft_update_cri tau self) = policy_noise self"
  "policy_noise (soft_update_act tau self) = policy_noise self"
  by (simp_all add: step_cri_def step_act_def optim_update_def soft_update_cri_def
      soft_update_act_def Let_def split: prod.splits)


subsection \<open>The iterations\<close>

lemma DQN_body_step:
  "\<not> if_use_per (fst st) \<Longrightarrow>
   \<not> if_use_per (fst (fst (DQN_update_body w tau i st)))
   \<and> snd (DQN_update_body w tau i st) = None
   \<and> n_steps (cri_optim (fst (fst (DQN_update_body w tau i st)))) = Suc (n_steps (cri_optim (fst st)))"
  by (cases st) (simp add: DQN_update_body_def DQN_get_obj_critic_def Let_def split: prod.splits)

lemma DDPG_body_step:
  "\<not> if_use_per (fst st) \<Longrightarrow>
   \<not> if_use_per (fst (fst (DDPG_update_body w tau i st)))
   \<and> snd (DDPG_update_body w tau i st) = None
   \<and> n_steps (cri_optim (fst (fst (DDPG_update_body w tau i st)))) = Suc (n_steps (cri_optim (fst st)))"
  by (cases st) (simp add: DDPG_update_body_def DDPG_get_obj_critic_def Let_def split: prod.splits)

lemma sac_fields [simp]:
  "if_use_per (step_alpha w obj self) = if_use_per self"
  "n_steps (cri_optim (step_alpha w obj self)) = n_steps (cri_optim self)"
  "n_steps (act_optim (step_alpha w obj self)) = n_steps (act_optim self)"
  by (simp_all add: step_alpha_def Let_def split: prod.splits)

lemma SAC_body_step:
  "\<not> if_use_per (fst st) \<Longrightarrow>
   \<not> if_use_per (fst (fst (SAC_update_body w tau i st)))
   \<and> snd (SAC_update_body w tau i st) = None
   \<and> n_steps (cri_optim (fst (fst (SAC_update_body w tau i st)))) = Suc (n_steps (cri_optim (fst st)))"
  by (cases st) (simp add: SAC_update_body_def SAC_get_obj_critic_def Let_def split: prod.splits)

lemma modsac_fields [simp]:
  "obj_c (step_cri w obj self) = obj_c self"
  "obj_c (step_act w obj self) = obj_c self"
  "obj_c (soft_update_cri tau self) = obj_c self"
  "obj_c (soft_update_act tau self) = obj_c self"
  "obj_c (step_alpha w oa self) = obj_c self"
  by (simp_all add: step_cri_def step_act_def optim_update_def soft_update_cri_def
      soft_update_act_def step_alpha_def Let_def split: prod.splits)

lemma ModSAC_body_step:
  "\<not> if_use_per (fst st) \<Longrightarrow>
   \<not> if_use_per (fst (fst (ModSAC_update_body w tau i st)))
   \<and> snd (ModSAC_update_body w tau i st) = None
   \<and> n_steps (cri_optim (fst (fst (ModSAC_update_body w tau i st)))) = Suc (n_steps (cri_optim (fst st)))"
  by (cases st)
     (simp add: ModSAC_update_body_def SAC_get_obj_critic_def Let_def split: prod.splits option.splits)

lemma TD3_body_step:
  "\<not> if_use_per (fst st) \<and> update_freq (fst st) = f \<and> 0 < f \<Longrightarrow>
   (\<not> if_use_per (fst (fst (TD3_update_body w tau i st)))
    \<and> update_freq (fst (fst (TD3_update_body w tau i st))) = f \<and> 0 < f)
   \<and> snd (TD3_update_body w tau i st) = None
   \<and> n_steps (cri_optim (fst (fst (TD3_update_body w tau i st)))) = Suc (n_steps (cri_optim (fst st)))"
  by (cases st) (simp add: TD3_update_body_def TD3_get_obj_critic_def Let_def split: prod.splits)

lemma TD3_body_step_act:
  "\<not> if_use_per (fst st) \<and> update_freq (fst st) = f \<and> 0 < f \<Longrightarrow>
   (\<not> if_use_per (fst (fst (TD3_update_body w tau i st)))
    \<and> update_freq (fst (fst (TD3_update_body w tau i st))) = f \<and> 0 < f)
   \<and> snd (TD3_update_body w tau i st) = None
   \<and> n_steps (act_optim (fst (fst (TD3_update_body w tau i st)))) = Suc (n_steps (act_optim (fst st)))"
  by (cases st) (simp add: TD3_update_body_def TD3_get_obj_critic_def Let_def split: prod.splits)

lemma TD3_body_log:
  "\<not> if_use_per (fst st) \<and> update_freq (fst st) = f \<and> 0 < f \<Longrightarrow>
   (\<not> if_use_per (fst (fst (TD3_update_body w tau i st)))
    \<and> update_freq (fst (fst (TD3_update_body w tau i st))) = f \<and> 0 < f)
   \<and> snd (TD3_update_body w tau i st) = None
   \<and> snd (snd (snd (snd (fst (TD3_update_body w tau i st)))))
       = snd (snd (snd (snd st))) @ (if i mod f = 0 then [i] else [])"
  by (cases st) (simp add: TD3_update_body_def TD3_get_obj_critic_def Let_def split: prod.splits)

lemma mod_eq_divisor_iff [simp]:
  fixes f :: nat
  assumes "f \<noteq> 0"
  shows "(i mod f = f) = False"
proof -
  from assms have "i mod f < f" by simp
  then show ?thesis by simp
qed


lemma SharedAC_body_count:
  "0 < update_freq (fst st) \<Longrightarrow>
   0 < update_freq (fst (fst (SharedAC_update_body w rt i st)))
   \<and> snd (SharedAC_update_body w rt i st) = None
   \<and> n_steps (cri_optim (fst (fst (SharedAC_update_body w rt i st)))) = Suc (n_steps (cri_optim (fst st)))"
  by (cases st) (simp add: SharedAC_update_body_def Let_def split: prod.splits)

lemma SharedAC_body_log:
  "snd (snd (snd (fst (SharedAC_update_body w rt i st)))) = snd (snd (snd st))"
  by (cases st) (simp add: SharedAC_update_body_def Let_def split: prod.splits)

subsection \<open>The calls\<close>

lemma DQN_update_net_count:
  assumes "0 < batch_size" "\<not> if_use_per self"
  shows "n_steps (cri_optim (fst (DQN_update_net w self buffer batch_size rt tau)))
     = n_steps (cri_optim self) + nat (bound_div_mul (now_len buffer) batch_size rt)"
proof -
  let ?xs = "py_range 0 (bound_div_mul (now_len buffer) batch_size rt)"
  let ?st = "(self, buffer, None :: real option, None :: real option)"
  from assms(2) have P: "\<not> if_use_per (fst ?st)"
    by simp
  from for_loop_count [of "\<lambda>st. \<not> if_use_per (fst st)" "DQN_update_body w tau"
      "\<lambda>st. n_steps (cri_optim (fst st))" ?st ?xs, OF DQN_body_step P]
  have s: "snd (for_loop (DQN_update_body w tau) ?xs ?st) = None"
    and n: "n_steps (cri_optim (fst (fst (for_loop (DQN_update_body w tau) ?xs ?st))))
            = n_steps (cri_optim self) + length ?xs"
    by simp_all
  show ?thesis using assms(1) s n
    by (auto simp: DQN_update_net_def split: prod.splits option.splits)
qed

lemma DDPG_update_net_count:
  assumes "0 < batch_size" "\<not> if_use_per self"
  shows "n_steps (cri_optim (fst (DDPG_update_net w self buffer batch_size rt tau)))
     = n_steps (cri_optim self) + nat (bound_div_mul (now_len buffer) batch_size rt)"
proof -
  let ?xs = "py_range 0 (bound_div_mul (now_len buffer) batch_size rt)"
  let ?st = "(self, buffer, None :: real option, None :: real option)"
  from assms(2) have P: "\<not> if_use_per (fst ?st)"
    by simp
  from for_loop_count [of "\<lambda>st. \<not> if_use_per (fst st)" "DDPG_update_body w tau"
      "\<lambda>st. n_steps (cri_optim (fst st))" ?st ?xs, OF DDPG_body_step P]
  have s: "snd (for_loop (DDPG_update_body w tau) ?xs ?st) = None"
    and n: "n_steps (cri_optim (fst (fst (for_loop (DDPG_update_body w tau) ?xs ?st))))
            = n_steps (cri_optim self) + length ?xs"
    by simp_all
  show ?thesis using assms(1) s n
    by (auto simp: DDPG_update_net_def split: prod.splits option.splits)
qed

lemma SAC_update_net_count:
  assumes "0 < batch_size" "\<not> if_use_per self"
  shows "n_steps (cri_optim (fst (SAC_update_net w self buffer batch_size rt tau)))
     = n_steps (cri_optim self) + nat (bound_mul_div (now_len buffer) batch_size rt)"
proof -
  let ?xs = "py_range 0 (bound_mul_div (now_len buffer) batch_size rt)"
  let ?st = "(self, buffer, None :: real option, None :: real option)"
  from assms(2) have P: "\<not> if_use_per (fst ?st)"
    by simp
  from for_loop_count [of "\<lambda>st. \<not> if_use_per (fst st)" "SAC_update_body w tau"
      "\<lambda>st. n_steps (cri_optim (fst st))" ?st ?xs, OF SAC_body_step P]
  have s: "snd (for_loop (SAC_update_body w tau) ?xs ?st) = None"
    and n: "n_steps (cri_optim (fst (fst (for_loop (SAC_update_body w tau) ?xs ?st))))
            = n_steps (cri_optim self) + length ?xs"
    by simp_all
  show ?thesis using assms(1) s n
    by (auto simp: SAC_update_net_def split: prod.splits option.splits)
qed

lemma ModSAC_update_net_count:
  assumes "0 < batch_size" "\<not> if_use_per self"
  shows "n_steps (cri_optim (fst (ModSAC_update_net w self buffer batch_size rt tau)))
     = n_steps (cri_optim self) + (nat (bound_mul_div (now_len buffer) batch_size rt) - 1)"
proof -
  let ?xs = "py_range 1 (bound_mul_div (now_len buffer) batch_size rt)"
  let ?st = "(self, buffer, 0 :: nat, None :: real option)"
  from assms(2) have P: "\<not> if_use_per (fst ?st)"
    by simp
  from for_loop_count [of "\<lambda>st. \<not> if_use_per (fst st)" "ModSAC_update_body w tau"
      "\<lambda>st. n_steps (cri_optim (fst st))" ?st ?xs, OF ModSAC_body_step P]
  have s: "snd (for_loop (ModSAC_update_body w tau) ?xs ?st) = None"
    and n: "n_steps (cri_optim (fst (fst (for_loop (ModSAC_update_body w tau) ?xs ?st))))
            = n_steps (cri_optim self) + length ?xs"
    by simp_all
  show ?thesis using assms(1) s n
    by (auto simp: ModSAC_update_net_def split: prod.splits option.splits)
qed

lemma TD3_update_net_run:
  assumes "0 < batch_size" "0 < update_freq self" "\<not> if_use_per self"
  shows "n_steps (cri_optim (fst (TD3_update_net w self buffer batch_size rt tau)))
           = n_steps (cri_optim self) + nat (bound_div_mul (now_len buffer) batch_size rt)"
    and "n_steps (act_optim (fst (TD3_update_net w self buffer batch_size rt tau)))
           = n_steps (act_optim self) + nat (bound_div_mul (now_len buffer) batch_size rt)"
    and "fst (snd (snd (TD3_update_net w self buffer batch_size rt tau)))
           = filter (\<lambda>c. c mod update_freq self = 0)
               [0..<nat (bound_div_mul (now_len buffer) batch_size rt)]"
proof -
  let ?xs = "py_range 0 (bound_div_mul (now_len buffer) batch_size rt)"
  let ?st = "(self, buffer, None :: real option, None :: real option, [] :: nat list)"
  let ?P = "\<lambda>st. \<not> if_use_per (fst st) \<and> update_freq (fst st) = update_freq self
                   \<and> 0 < update_freq self"
  let ?r = "for_loop (TD3_update_body w tau) ?xs ?st"
  from assms have P: "?P ?st" by simp
  from for_loop_count [of ?P "TD3_update_body w tau"
      "\<lambda>st. n_steps (cri_optim (fst st))" ?st ?xs, OF TD3_body_step P]
  have s: "snd ?r = None"
    and n: "n_steps (cri_optim (fst (fst ?r))) = n_steps (cri_optim self) + length ?xs"
    by simp_all
  from for_loop_count [of ?P "TD3_update_body w tau"
      "\<lambda>st. n_steps (act_optim (fst st))" ?st ?xs, OF TD3_body_step_act P]
  have a: "n_steps (act_optim (fst (fst ?r))) = n_steps (act_optim self) + length ?xs"
    by simp
  from for_loop_log [of ?P "TD3_update_body w tau" "\<lambda>st. snd (snd (snd (snd st)))"
      "\<lambda>c. c mod update_freq self = 0" ?st ?xs, OF TD3_body_log P]
  have l: "snd (snd (snd (snd (fst ?r)))) = filter (\<lambda>c. c mod update_freq self = 0) ?xs"
    by simp
  show "n_steps (cri_optim (fst (TD3_update_net w self buffer batch_size rt tau)))
           = n_steps (cri_optim self) + nat (bound_div_mul (now_len buffer) batch_size rt)"
    using assms(1) s n by (auto simp: TD3_update_net_def split: prod.splits option.splits)
  show "n_steps (act_optim (fst (TD3_update_net w self buffer batch_size rt tau)))
           = n_steps (act_optim self) + nat (bound_div_mul (now_len buffer) batch_size rt)"
    using assms(1) s a by (auto simp: TD3_update_net_def split: prod.splits option.splits)
  show "fst (snd (snd (TD3_update_net w self buffer batch_size rt tau)))
           = filter (\<lambda>c. c mod update_freq self = 0)
               [0..<nat (bound_div_mul (now_len buffer) batch_size rt)]"
    using assms(1) s l
    by (auto simp: TD3_update_net_def py_range_0 split: prod.splits option.splits)
qed

lemma SharedAC_update_net_count:
  assumes "0 < batch_size" "0 < update_freq self" "0 < max_len buffer"
  shows "n_steps (cri_optim (fst (SharedAC_update_net w self buffer batch_size rt tau)))
     = n_steps (cri_optim self) + nat (bound_div_mul (now_len buffer) batch_size rt)"
proof -
  let ?xs = "py_range 0 (bound_div_mul (now_len buffer) batch_size rt)"
  let ?st = "(self, buffer, None :: real option, [] :: nat list)"
  from assms(2) have P: "0 < update_freq (fst ?st)"
    by simp
  from for_loop_count [of "\<lambda>st. 0 < update_freq (fst st)" "SharedAC_update_body w rt"
      "\<lambda>st. n_steps (cri_optim (fst st))" ?st ?xs, OF SharedAC_body_count P]
  have s: "snd (for_loop (SharedAC_update_body w rt) ?xs ?st) = None"
    and n: "n_steps (cri_optim (fst (fst (for_loop (SharedAC_update_body w rt) ?xs ?st))))
            = n_steps (cri_optim self) + length ?xs"
    by simp_all
  show ?thesis using assms s n
    by (auto simp: SharedAC_update_net_def split: prod.splits option.splits)
qed

text \<open>
  As soon as the loop of \<^verbatim>\<open>AgentDQN.update_net\<close> has an iteration, both diagnostics are
  set and the call returns its tuple; so it does with three samples, batch size 1 and
  the double nearest to \<open>1 / 3\<close> as repeat factor, where the bound is \<^verbatim>\<open>int(1.0)\<close>.
\<close>

lemma DQN_body_sets_diagnostics:
  "\<not> if_use_per (fst st) \<Longrightarrow>
   (\<not> if_use_per (fst (fst (DQN_update_body w tau i st)))
    \<and> fst (snd (snd (fst (DQN_update_body w tau i st)))) \<noteq> None
    \<and> snd (snd (snd (fst (DQN_update_body w tau i st)))) \<noteq> None)
   \<and> snd (DQN_update_body w tau i st) = None
   \<and> n_steps (cri_optim (fst (fst (DQN_update_body w tau i st)))) = Suc (n_steps (cri_optim (fst st)))"
  by (cases st) (simp add: DQN_update_body_def DQN_get_obj_critic_def Let_def split: prod.splits)

lemma DQN_returns_once_loop_runs:
  assumes "0 < batch_size" "\<not> if_use_per self"
    and "1 \<le> bound_div_mul (now_len buffer) batch_size rt"
  shows "\<not> isl (snd (snd (DQN_update_net w self buffer batch_size rt tau)))"
proof -
  let ?N = "nat (bound_div_mul (now_len buffer) batch_size rt)"
  let ?body = "DQN_update_body w tau"
  let ?st = "(self, buffer, None :: real option, None :: real option)"
  let ?st1 = "fst (?body 0 ?st)"
  let ?P = "\<lambda>st. \<not> if_use_per (fst st) \<and> fst (snd (snd st)) \<noteq> None \<and> snd (snd (snd st)) \<noteq> None"
  let ?r = "for_loop ?body [1..<?N] ?st1"
  from assms(2) have p: "\<not> if_use_per (fst ?st)" by simp
  note first = DQN_body_sets_diagnostics [OF p, of w tau 0]
  have xs: "py_range 0 (bound_div_mul (now_len buffer) batch_size rt) = 0 # [1..<?N]"
    using assms(3) by (simp add: py_range_def upt_conv_Cons)
  have run: "for_loop ?body (py_range 0 (bound_div_mul (now_len buffer) batch_size rt)) ?st = ?r"
    unfolding xs using first by (intro for_loop_Cons_ok) simp
  from first have P: "?P ?st1" by simp
  have step: "\<And>i st. ?P st \<Longrightarrow> ?P (fst (?body i st)) \<and> snd (?body i st) = None
                \<and> n_steps (cri_optim (fst (fst (?body i st)))) = Suc (n_steps (cri_optim (fst st)))"
    using DQN_body_sets_diagnostics by blast
  from for_loop_count [of ?P ?body "\<lambda>st. n_steps (cri_optim (fst st))" ?st1 "[1..<?N]", OF step P]
  have s: "snd ?r = None" and o: "fst (snd (snd (fst ?r))) \<noteq> None" "snd (snd (snd (fst ?r))) \<noteq> None"
    by simp_all
  show ?thesis
    using assms(1) s o unfolding DQN_update_net_def run
    by (auto simp: item_def split: prod.splits option.splits)
qed

lemma DQN_returns_at_rounded_bound:
  "\<not> isl (snd (snd (DQN_update_net (probe_trainer 0) probe_agent (probe_buffer 3) 1
                        (6004799503160661 / 2 ^ 54) 0.005)))"
proof -
  have "1 \<le> bound_div_mul (now_len (probe_buffer 3)) 1 (6004799503160661 / 2 ^ 54)"
    using bound_rounding_decides(3) by (simp add: probe_buffer_def)
  moreover have "\<not> if_use_per probe_agent" by (simp add: probe_agent_def)
  ultimately show ?thesis
    by (intro DQN_returns_once_loop_runs) simp_all
qed

subsection \<open>Agents whose critic objective is \<^verbatim>\<open>None\<close>\<close>

text \<open>
  An agent initialised with \<^verbatim>\<open>if_use_per = True\<close> has \<^verbatim>\<open>self.get_obj_critic = None\<close>: as
  soon as the loop of \<^verbatim>\<open>update_net\<close> has an iteration, the call raises \<^verbatim>\<open>TypeError\<close>, with
  no optimizer step taken.  \<^verbatim>\<open>AgentSharedSAC\<close> is in this situation however it is
  initialised.
\<close>

lemma DQN_per_raises_TypeError:
  assumes "0 < batch_size" "if_use_per self" "1 \<le> bound_div_mul (now_len buffer) batch_size rt"
  shows "DQN_update_net w self buffer batch_size rt tau = (self, buffer, Inl TypeError)"
proof -
  let ?xs = "py_range 0 (bound_div_mul (now_len buffer) batch_size rt)"
  have "?xs \<noteq> []" using assms(3) by (simp add: py_range_def)
  then have "for_loop (DQN_update_body w tau) ?xs (self, buffer, None, None)
             = ((self, buffer, None, None), Some TypeError)"
    using assms(2)
    by (intro for_loop_raises_at_once) (simp_all add: DQN_update_body_def DQN_get_obj_critic_def)
  then show ?thesis using assms(1) by (simp add: DQN_update_net_def)
qed

lemma TD3_per_raises_TypeError:
  assumes "0 < batch_size" "if_use_per self" "1 \<le> bound_div_mul (now_len buffer) batch_size rt"
  shows "TD3_update_net w self buffer batch_size rt tau = (self, buffer, [], Inl TypeError)"
proof -
  let ?xs = "py_range 0 (bound_div_mul (now_len buffer) batch_size rt)"
  have "?xs \<noteq> []" using assms(3) by (simp add: py_range_def)
  then have "for_loop (TD3_update_body w tau) ?xs (self, buffer, None, None, [])
             = ((self, buffer, None, None, []), Some TypeError)"
    using assms(2)
    by (intro for_loop_raises_at_once) (simp_all add: TD3_update_body_def TD3_get_obj_critic_def)
  then show ?thesis using assms(1) by (simp add: TD3_update_net_def)
qed

lemma SharedSAC_raises_TypeError:
  assumes "0 < batch_size" "2 \<le> bound_div_mul (now_len buffer) batch_size rt"
  shows "SharedSAC_update_net self buffer batch_size rt tau = (self, buffer, Inl TypeError)"
proof -
  let ?xs = "py_range 1 (bound_div_mul (now_len buffer) batch_size rt)"
  have "?xs \<noteq> []" using assms(2) by (simp add: py_range_def)
  then have "for_loop SharedSAC_update_body ?xs (self, buffer, None)
             = ((self, buffer, None), Some TypeError)"
    by (intro for_loop_raises_at_once) (simp_all add: SharedSAC_update_body_def)
  then show ?thesis using assms(1) by (simp add: SharedSAC_update_net_def)
qed

subsection \<open>The actor throttle of \<^verbatim>\<open>AgentModSAC\<close>\<close>

text \<open>
  In the first iteration \<open>update_a / update_c = 0 / 1\<close> and \<open>1 / (2 - reliable_lambda)\<close> is
  positive, \<^verbatim>\<open>reliable_lambda\<close> being at most 1: unless \<^verbatim>\<open>self.obj_c\<close> is \<^verbatim>\<open>nan\<close> the actor is
  updated and \<^verbatim>\<open>obj_actor\<close> is set, and it stays set.  With \<^verbatim>\<open>self.obj_c\<close> \<^verbatim>\<open>nan\<close> the throttle
  is false in every iteration: the critic is trained, the actor never, and \<^verbatim>\<open>obj_actor\<close>
  is still \<^verbatim>\<open>None\<close> at the \<^verbatim>\<open>return\<close>.
\<close>

lemma exp_neg_square_less_2: "exp (- (c::real)\<^sup>2) < 2"
proof -
  have "exp (- c\<^sup>2) \<le> 1" by simp
  then show ?thesis by linarith
qed

lemma ModSAC_first_iteration:
  assumes "\<not> if_use_per self" "obj_c self = Some c"
  shows "snd (ModSAC_update_body w tau 1 (self, buffer, 0, oa)) = None"
    and "snd (snd (snd (fst (ModSAC_update_body w tau 1 (self, buffer, 0, oa))))) \<noteq> None"
    and "\<not> if_use_per (fst (fst (ModSAC_update_body w tau 1 (self, buffer, 0, oa))))"
    and "n_steps (act_optim (fst (fst (ModSAC_update_body w tau 1 (self, buffer, 0, oa)))))
         = Suc (n_steps (act_optim self))"
  using assms exp_neg_square_less_2
  by (simp_all add: ModSAC_update_body_def SAC_get_obj_critic_def Let_def split: prod.splits)

lemma ModSAC_body_keeps_obj_actor:
  "\<not> if_use_per (fst st) \<and> snd (snd (snd st)) \<noteq> None \<and> k \<le> n_steps (act_optim (fst st)) \<Longrightarrow>
   (\<not> if_use_per (fst (fst (ModSAC_update_body w tau i st)))
    \<and> snd (snd (snd (fst (ModSAC_update_body w tau i st)))) \<noteq> None
    \<and> k \<le> n_steps (act_optim (fst (fst (ModSAC_update_body w tau i st)))))
   \<and> snd (ModSAC_update_body w tau i st) = None
   \<and> n_steps (cri_optim (fst (fst (ModSAC_update_body w tau i st)))) = Suc (n_steps (cri_optim (fst st)))"
  by (cases st)
     (simp add: ModSAC_update_body_def SAC_get_obj_critic_def Let_def split: prod.splits option.splits)



lemma ModSAC_returns_once_loop_runs:
  assumes "0 < batch_size" "\<not> if_use_per self" "obj_c self = Some c"
    and "2 \<le> bound_mul_div (now_len buffer) batch_size rt"
  shows "\<not> isl (snd (snd (ModSAC_update_net w self buffer batch_size rt tau)))"
    and "n_steps (act_optim self)
         < n_steps (act_optim (fst (ModSAC_update_net w self buffer batch_size rt tau)))"
proof -
  let ?N = "nat (bound_mul_div (now_len buffer) batch_size rt)"
  let ?body = "ModSAC_update_body w tau"
  let ?st = "(self, buffer, 0 :: nat, None :: real option)"
  let ?st1 = "fst (?body 1 ?st)"
  let ?P = "\<lambda>st. \<not> if_use_per (fst st) \<and> snd (snd (snd st)) \<noteq> None
                   \<and> Suc (n_steps (act_optim self)) \<le> n_steps (act_optim (fst st))"
  let ?r = "for_loop ?body [2..<?N] ?st1"
  note first = ModSAC_first_iteration [OF assms(2,3), of w tau buffer None]
  have xs: "py_range 1 (bound_mul_div (now_len buffer) batch_size rt) = 1 # [2..<?N]"
    using assms(4) by (simp add: py_range_def upt_conv_Cons numeral_2_eq_2)
  have run: "for_loop ?body (py_range 1 (bound_mul_div (now_len buffer) batch_size rt)) ?st = ?r"
    unfolding xs using first(1) by (rule for_loop_Cons_ok)
  from first have P: "?P ?st1" by simp
  from for_loop_count [of ?P ?body "\<lambda>st. n_steps (cri_optim (fst st))" ?st1 "[2..<?N]",
      OF ModSAC_body_keeps_obj_actor P]
  have s: "snd ?r = None" and o: "snd (snd (snd (fst ?r))) \<noteq> None"
    and a: "Suc (n_steps (act_optim self)) \<le> n_steps (act_optim (fst (fst ?r)))"
    by simp_all
  show "\<not> isl (snd (snd (ModSAC_update_net w self buffer batch_size rt tau)))"
    using assms(1) s o unfolding ModSAC_update_net_def run
    by (auto simp: item_def split: prod.splits option.splits)
  show "n_steps (act_optim self)
         < n_steps (act_optim (fst (ModSAC_update_net w self buffer batch_size rt tau)))"
    using assms(1) s a unfolding ModSAC_update_net_def run
    by (auto split: prod.splits option.splits)
qed

section \<open>Delayed updates of \<^verbatim>\<open>AgentTD3\<close>\<close>

text \<open>
  Claim C5 as stated fails: in the iteration \<open>update_c = 1\<close> of an agent with
  \<open>update_freq = 2\<close> (initialised without prioritized replay) the actor's optimizer
  takes a step and the actor's parameters change (the probe's optimizer step adds 1
  to each), although 1 is not a multiple of 2.
\<close>

theorem TD3_actor_updated_off_schedule:
  "(1::nat) mod update_freq probe_td3 \<noteq> 0
   \<and> \<not> if_use_per probe_td3
   \<and> snd (TD3_update_body (probe_trainer ()) 0.005 1 (probe_td3, probe_buffer 4, None, None, []))
       = None
   \<and> act (fst (fst (TD3_update_body (probe_trainer ()) 0.005 1
                       (probe_td3, probe_buffer 4, None, None, [])))) = [[1]]
   \<and> act probe_td3 = [[0]]
   \<and> n_steps (act_optim (fst (fst (TD3_update_body (probe_trainer ()) 0.005 1
                       (probe_td3, probe_buffer 4, None, None, []))))) = 1
   \<and> n_steps (act_optim probe_td3) = 0"
  by (simp add: TD3_update_body_def TD3_get_obj_critic_def TD3_get_obj_critic_raw_def Let_def
      probe_td3_def probe_trainer_def probe_optim_def
      step_act_def step_cri_def optim_update_def split: prod.splits)

text \<open>
  Claim C5, amended.  Let \<^verbatim>\<open>AgentTD3\<close> be initialised without prioritized replay, with a
  positive \<open>update_freq\<close>.  In every iteration \<open>update_c\<close> of \<^verbatim>\<open>update_net\<close> the critic's and
  the actor's optimizer each take one step, the actor on the objective
  \<open>- mean (cri_target (state, act (state)))\<close>: the actor's gradient update is not
  delayed.  The two target networks are soft-updated, towards the freshly updated
  online networks, if \<open>update_c\<close> is a multiple of \<open>update_freq\<close>; in every other
  iteration neither target network changes.  Over a whole call, which runs the
  iterations \<open>0, \<dots>, N - 1\<close> with \<open>N = int (now_len / batch_size * repeat_times)\<close>, both
  optimizers take \<open>N\<close> steps and the iterations that executed the two soft updates
  are exactly the multiples of \<open>update_freq\<close> below \<open>N\<close>.
\<close>

theorem TD3_delays_target_updates_only:
  assumes "0 < batch_size" and "0 < update_freq self" and "\<not> if_use_per self"
  shows "snd (TD3_update_body w tau update_c (self, buffer, oc, oa, su)) = None
    \<and> n_steps (cri_optim (fst (fst (TD3_update_body w tau update_c (self, buffer, oc, oa, su)))))
        = Suc (n_steps (cri_optim self))
    \<and> n_steps (act_optim (fst (fst (TD3_update_body w tau update_c (self, buffer, oc, oa, su)))))
        = Suc (n_steps (act_optim self))
    \<and> act (fst (fst (TD3_update_body w tau update_c (self, buffer, oc, oa, su))))
        = fst (t_descend w (act_optim self)
                 (\<lambda>\<theta>. - t_mean (critic (t_nets w) (cri_target self)
                     (fst (snd (TD3_get_obj_critic_raw (t_nets w) self buffer
                                  (t_sample w update_c) (t_draw w update_c))))
                     (actor (t_nets w) \<theta>
                        (fst (snd (TD3_get_obj_critic_raw (t_nets w) self buffer
                                     (t_sample w update_c) (t_draw w update_c)))))))
                 (act self))
    \<and> (update_c mod update_freq self \<noteq> 0 \<longrightarrow>
          cri_target (fst (fst (TD3_update_body w tau update_c (self, buffer, oc, oa, su))))
            = cri_target self
        \<and> act_target (fst (fst (TD3_update_body w tau update_c (self, buffer, oc, oa, su))))
            = act_target self
        \<and> snd (snd (snd (snd (fst (TD3_update_body w tau update_c (self, buffer, oc, oa, su))))))
            = su)
    \<and> (update_c mod update_freq self = 0 \<longrightarrow>
          cri_target (fst (fst (TD3_update_body w tau update_c (self, buffer, oc, oa, su))))
            = soft_update (cri_target self)
                (cri (fst (fst (TD3_update_body w tau update_c (self, buffer, oc, oa, su))))) tau
        \<and> act_target (fst (fst (TD3_update_body w tau update_c (self, buffer, oc, oa, su))))
            = soft_update (act_target self)
                (act (fst (fst (TD3_update_body w tau update_c (self, buffer, oc, oa, su))))) tau
        \<and> snd (snd (snd (snd (fst (TD3_update_body w tau update_c (self, buffer, oc, oa, su))))))
            = su @ [update_c])
    \<and> n_steps (cri_optim (fst (TD3_update_net w self buf batch_size repeat_times tau)))
        = n_steps (cri_optim self) + nat (bound_div_mul (now_len buf) batch_size repeat_times)
    \<and> n_steps (act_optim (fst (TD3_update_net w self buf batch_size repeat_times tau)))
        = n_steps (act_optim self) + nat (bound_div_mul (now_len buf) batch_size repeat_times)
    \<and> fst (snd (snd (TD3_update_net w self buf batch_size repeat_times tau)))
        = filter (\<lambda>c. c mod update_freq self = 0)
            [0..<nat (bound_div_mul (now_len buf) batch_size repeat_times)]"
proof -
  note run = TD3_update_net_run [OF assms, of w buf repeat_times tau]
  show ?thesis
    unfolding run using assms(2,3)
    by (simp add: TD3_update_body_def TD3_get_obj_critic_def Let_def step_act_def optim_update_def
        split: prod.splits)
qed

theorem TD3_delays_target_updates_only_witness:
  "(0::nat) < 2 \<and> 0 < update_freq probe_td3 \<and> \<not> if_use_per probe_td3
   \<and> (1::nat) mod update_freq probe_td3 \<noteq> 0 \<and> (2::nat) mod update_freq probe_td3 = 0
   \<and> n_steps (act_optim (fst (fst (TD3_update_body (probe_trainer ()) 0.005 1
                       (probe_td3, probe_buffer 6, None, None, [0])))))
       = Suc (n_steps (act_optim probe_td3))
   \<and> cri_target (fst (fst (TD3_update_body (probe_trainer ()) 0.005 1
                       (probe_td3, probe_buffer 6, None, None, [0])))) = cri_target probe_td3
   \<and> act_target (fst (fst (TD3_update_body (probe_trainer ()) 0.005 1
                       (probe_td3, probe_buffer 6, None, None, [0])))) = act_target probe_td3
   \<and> snd (snd (snd (snd (fst (TD3_update_body (probe_trainer ()) 0.005 2
                       (probe_td3, probe_buffer 6, None, None, [0])))))) = [0, 2]
   \<and> n_steps (act_optim (fst (TD3_update_net (probe_trainer ()) probe_td3 (probe_buffer 6) 2 1 0.005)))
       = 3
   \<and> fst (snd (snd (TD3_update_net (probe_trainer ()) probe_td3 (probe_buffer 6) 2 1 0.005)))
       = [0, 2]"
proof -
  have b: "(0::nat) < 2" by simp
  have f: "0 < update_freq probe_td3" and p: "\<not> if_use_per probe_td3"
    and m: "(1::nat) mod update_freq probe_td3 \<noteq> 0" "(2::nat) mod update_freq probe_td3 = 0"
    and z: "n_steps (act_optim probe_td3) = 0" "update_freq probe_td3 = 2"
    by (simp_all add: probe_td3_def probe_optim_def)
  have n: "nat (bound_div_mul (now_len (probe_buffer 6)) 2 1) = 3"
    by (simp add: probe_buffer_def bound_values bound_values_Suc)
  have fl: "filter (\<lambda>c. c mod 2 = 0) [0..<3::nat] = [0, 2]"
    by (simp add: upt_rec)
  note one = TD3_delays_target_updates_only [OF b f p,
      of "probe_trainer ()" "0.005" 1 "probe_buffer 6" None None "[0]" "probe_buffer 6" 1]
  note two = TD3_delays_target_updates_only [OF b f p,
      of "probe_trainer ()" "0.005" 2 "probe_buffer 6" None None "[0]" "probe_buffer 6" 1]
  from one m have c1:
    "n_steps (act_optim (fst (fst (TD3_update_body (probe_trainer ()) 0.005 1
                       (probe_td3, probe_buffer 6, None, None, [0])))))
       = Suc (n_steps (act_optim probe_td3))"
    "cri_target (fst (fst (TD3_update_body (probe_trainer ()) 0.005 1
                       (probe_td3, probe_buffer 6, None, None, [0])))) = cri_target probe_td3"
    "act_target (fst (fst (TD3_update_body (probe_trainer ()) 0.005 1
                       (probe_td3, probe_buffer 6, None, None, [0])))) = act_target probe_td3"
    by blast+
  from two m have c2:
    "snd (snd (snd (snd (fst (TD3_update_body (probe_trainer ()) 0.005 2
                       (probe_td3, probe_buffer 6, None, None, [0])))))) = [0] @ [2]"
    by blast
  from one have c3:
    "n_steps (act_optim (fst (TD3_update_net (probe_trainer ()) probe_td3 (probe_buffer 6) 2 1 0.005)))
       = n_steps (act_optim probe_td3) + nat (bound_div_mul (now_len (probe_buffer 6)) 2 1)"
    "fst (snd (snd (TD3_update_net (probe_trainer ()) probe_td3 (probe_buffer 6) 2 1 0.005)))
       = filter (\<lambda>c. c mod update_freq probe_td3 = 0)
           [0..<nat (bound_div_mul (now_len (probe_buffer 6)) 2 1)]"
    by blast+
  from c3 have c4:
    "n_steps (act_optim (fst (TD3_update_net (probe_trainer ()) probe_td3 (probe_buffer 6) 2 1 0.005)))
       = 3"
    "fst (snd (snd (TD3_update_net (probe_trainer ()) probe_td3 (probe_buffer 6) 2 1 0.005)))
       = [0, 2]"
    unfolding n z fl by simp_all
  from b f p m c1 c2 c4 show ?thesis by simp
qed

section \<open>The hard target update of \<^verbatim>\<open>AgentSharedAC\<close>\<close>

text \<open>
  Claim C4 (the code departs from it).  The guard of the hard copy is
  \<^verbatim>\<open>i % self.update_freq == self.update_freq and lamb > 0.1\<close>; a remainder is smaller
  than its divisor, so the guard never holds: whatever the agent, the buffer, the
  batch size and the repeat factor, no iteration of \<^verbatim>\<open>update_net\<close> executes
  \<^verbatim>\<open>self.cri_target.load_state_dict(self.cri.state_dict())\<close>, at the multiples of
  \<open>update_freq\<close> with \<open>lamb > 0.1\<close> as little as elsewhere.
\<close>

theorem SharedAC_hard_update_never_runs:
  "fst (snd (snd (SharedAC_update_net w self buffer batch_size repeat_times tau))) = []"
proof -
  let ?xs = "py_range 0 (bound_div_mul (now_len buffer) batch_size repeat_times)"
  have "snd (snd (snd (fst (for_loop (SharedAC_update_body w repeat_times) ?xs (self, buffer, None, [])))))
        = snd (snd (snd (self, buffer, None :: real option, [] :: nat list)))"
    by (rule for_loop_preserve [of "\<lambda>st. snd (snd (snd st))", OF SharedAC_body_log])
  then show ?thesis
    by (auto simp: SharedAC_update_net_def split: prod.splits option.splits)
qed

text \<open>With a target of its own (\<^verbatim>\<open>if_use_cri_target\<close> set by the caller) the target
  network therefore never changes in an iteration, not even at iteration 128 with
  \<open>lamb = 1\<close>.\<close>

lemma sharedac_fields [simp]:
  "if_use_cri_target (step_cri w obj self) = if_use_cri_target self"
  "avg_loss_c (step_cri w obj self) = avg_loss_c self"
  by (simp_all add: step_cri_def optim_update_def Let_def split: prod.splits)

lemma SharedAC_body_target_frozen:
  "if_use_cri_target self \<Longrightarrow>
   cri_target (fst (fst (SharedAC_update_body w rt i (self, buffer, ao, hu)))) = cri_target self"
  by (simp add: SharedAC_update_body_def Let_def split: prod.splits)

section \<open>The number of critic gradient steps\<close>

text \<open>
  Claim C6 as stated fails for \<^verbatim>\<open>AgentModSAC\<close>: with two samples in the buffer, batch
  size 1 and repeat factor 1 the stated number is \<open>floor (2 / 1 * 1) = 2\<close> (no rounding
  occurs, in either order of evaluation), but the loop runs over \<^verbatim>\<open>range(1, 2)\<close>: the
  call returns its tuple after one step of the critic's optimizer.
\<close>

theorem ModSAC_one_step_fewer:
  "\<not> if_use_per probe_modsac
   \<and> n_steps (cri_optim (fst (ModSAC_update_net (probe_trainer ()) probe_modsac (probe_buffer 2) 1 1 0.005)))
       = n_steps (cri_optim probe_modsac) + 1
   \<and> \<not> isl (snd (snd (ModSAC_update_net (probe_trainer ()) probe_modsac (probe_buffer 2) 1 1 0.005)))
   \<and> \<lfloor>real (now_len (probe_buffer 2)) / real (1::nat) * 1\<rfloor> = 2
   \<and> bound_div_mul (now_len (probe_buffer 2)) 1 1 = 2
   \<and> bound_mul_div (now_len (probe_buffer 2)) 1 1 = 2"
proof -
  have p: "\<not> if_use_per probe_modsac" and c: "obj_c probe_modsac = Some (sqrt (- ln 0.5))"
    by (simp_all add: probe_modsac_def)
  have b: "bound_div_mul (now_len (probe_buffer 2)) 1 1 = 2"
    "bound_mul_div (now_len (probe_buffer 2)) 1 1 = 2"
    by (simp_all add: probe_buffer_def bound_values bound_values_Suc)
  have b': "bound_mul_div (now_len (probe_buffer 2)) (Suc 0) 1 = 2"
    by (simp add: probe_buffer_def bound_values_Suc)
  have "n_steps (cri_optim (fst (ModSAC_update_net (probe_trainer ()) probe_modsac (probe_buffer 2) 1 1 0.005)))
       = n_steps (cri_optim probe_modsac) + 1"
    using ModSAC_update_net_count [of 1 probe_modsac "probe_trainer ()" "probe_buffer 2" 1 "0.005"] p
    by (simp add: b')
  moreover have "\<not> isl (snd (snd (ModSAC_update_net (probe_trainer ()) probe_modsac (probe_buffer 2) 1 1 0.005)))"
    using ModSAC_returns_once_loop_runs(1) [of 1 probe_modsac _ "probe_buffer 2" 1 "probe_trainer ()" "0.005"]
      p c
    by (simp add: b')
  moreover have "\<lfloor>real (now_len (probe_buffer 2)) / real (1::nat) * 1\<rfloor> = 2"
    by (simp add: probe_buffer_def)
  ultimately show ?thesis using p b by simp
qed

text \<open>
  Claim C6, amended.  Let the batch size be positive and the agent be initialised
  without prioritized replay.  With \<open>N\<close> the value of
  \<^verbatim>\<open>int(buffer.now_len / batch_size * repeat_times)\<close> as the code computes it in double
  precision (for \<^verbatim>\<open>AgentSAC\<close> and \<^verbatim>\<open>AgentModSAC\<close>:
  \<^verbatim>\<open>int(buffer.now_len * repeat_times / batch_size)\<close>), no step when that is negative, the
  critic's optimizer takes \<open>N\<close> steps in \<^verbatim>\<open>update_net\<close> of \<^verbatim>\<open>AgentDQN\<close>, \<^verbatim>\<open>AgentDDPG\<close>,
  \<^verbatim>\<open>AgentTD3\<close>, \<^verbatim>\<open>AgentSAC\<close> and \<^verbatim>\<open>AgentSharedAC\<close> (\<open>update_freq\<close> positive for
  \<^verbatim>\<open>AgentTD3\<close> and \<^verbatim>\<open>AgentSharedAC\<close>, \<open>max_len\<close> positive for \<^verbatim>\<open>AgentSharedAC\<close>, which
  samples from the buffer directly).  \<^verbatim>\<open>AgentModSAC\<close> loops over \<^verbatim>\<open>range(1, N)\<close> and
  takes \<open>N - 1\<close> steps (none when \<open>N = 0\<close>).
\<close>

theorem update_net_critic_step_counts:
  assumes "0 < batch_size"
    and "\<not> if_use_per dqn" "\<not> if_use_per ddpg" "\<not> if_use_per td3" "\<not> if_use_per sac"
    and "\<not> if_use_per modsac"
    and "0 < update_freq td3" "0 < update_freq sharedac" "0 < max_len buffer"
  shows "n_steps (cri_optim (fst (DQN_update_net wq dqn buffer batch_size repeat_times tau)))
           = n_steps (cri_optim dqn) + nat (bound_div_mul (now_len buffer) batch_size repeat_times)
       \<and> n_steps (cri_optim (fst (DDPG_update_net w ddpg buffer batch_size repeat_times tau)))
           = n_steps (cri_optim ddpg) + nat (bound_div_mul (now_len buffer) batch_size repeat_times)
       \<and> n_steps (cri_optim (fst (TD3_update_net w td3 buffer batch_size repeat_times tau)))
           = n_steps (cri_optim td3) + nat (bound_div_mul (now_len buffer) batch_size repeat_times)
       \<and> n_steps (cri_optim (fst (SharedAC_update_net wv sharedac buffer batch_size repeat_times tau)))
           = n_steps (cri_optim sharedac)
             + nat (bound_div_mul (now_len buffer) batch_size repeat_times)
       \<and> n_steps (cri_optim (fst (SAC_update_net w sac buffer batch_size repeat_times tau)))
           = n_steps (cri_optim sac) + nat (bound_mul_div (now_len buffer) batch_size repeat_times)
       \<and> n_steps (cri_optim (fst (ModSAC_update_net w modsac buffer batch_size repeat_times tau)))
           = n_steps (cri_optim modsac)
             + (nat (bound_mul_div (now_len buffer) batch_size repeat_times) - 1)
       \<and> nat (bound_div_mul (now_len buffer) batch_size repeat_times)
           = nat \<lfloor>fmul (fdiv (real (now_len buffer)) (real batch_size)) repeat_times\<rfloor>
       \<and> nat (bound_mul_div (now_len buffer) batch_size repeat_times)
           = nat \<lfloor>fdiv (fmul (real (now_len buffer)) repeat_times) (real batch_size)\<rfloor>"
  unfolding DQN_update_net_count [OF assms(1,2)] DDPG_update_net_count [OF assms(1,3)]
    TD3_update_net_run(1) [OF assms(1,7,4)] SAC_update_net_count [OF assms(1,5)]
    SharedAC_update_net_count [OF assms(1,8,9)] ModSAC_update_net_count [OF assms(1,6)]
  by (simp add: nat_bound_floor)

theorem update_net_critic_step_counts_witness:
  "(0::nat) < 2 \<and> \<not> if_use_per probe_agent \<and> \<not> if_use_per probe_td3 \<and> \<not> if_use_per probe_sac
   \<and> \<not> if_use_per probe_modsac \<and> 0 < update_freq probe_td3
   \<and> 0 < update_freq (AgentSharedAC_init [[0]] probe_optim) \<and> 0 < max_len (probe_buffer 6)
   \<and> n_steps (cri_optim (fst (DQN_update_net (probe_trainer 0) probe_agent (probe_buffer 6) 2 1 0.005))) = 3
   \<and> n_steps (cri_optim (fst (DDPG_update_net (probe_trainer ()) probe_agent (probe_buffer 6) 2 1 0.005))) = 3
   \<and> n_steps (cri_optim (fst (TD3_update_net (probe_trainer ()) probe_td3 (probe_buffer 6) 2 1 0.005))) = 3
   \<and> n_steps (cri_optim (fst (SharedAC_update_net (probe_trainer [0])
                                 (AgentSharedAC_init [[0]] probe_optim) (probe_buffer 6) 2 1 0.005))) = 3
   \<and> n_steps (cri_optim (fst (SAC_update_net (probe_trainer ()) probe_sac (probe_buffer 6) 2 1 0.005))) = 3
   \<and> n_steps (cri_optim (fst (ModSAC_update_net (probe_trainer ()) probe_modsac (probe_buffer 6) 2 1 0.005))) = 2"
proof -
  have h: "(0::nat) < 2" "\<not> if_use_per probe_agent" "\<not> if_use_per probe_agent"
    "\<not> if_use_per probe_td3" "\<not> if_use_per probe_sac" "\<not> if_use_per probe_modsac"
    "0 < update_freq probe_td3"
    "0 < update_freq (AgentSharedAC_init [[0]] probe_optim)" "0 < max_len (probe_buffer 6)"
    by (simp_all add: probe_agent_def probe_td3_def probe_sac_def probe_modsac_def
        AgentSharedAC_init_def probe_buffer_def)
  have n: "nat (bound_div_mul (now_len (probe_buffer 6)) 2 1) = 3"
    "nat (bound_mul_div (now_len (probe_buffer 6)) 2 1) = 3"
    by (simp_all add: probe_buffer_def bound_values bound_values_Suc)
  have z: "n_steps (cri_optim probe_agent) = 0" "n_steps (cri_optim probe_td3) = 0"
    "n_steps (cri_optim probe_sac) = 0" "n_steps (cri_optim probe_modsac) = 0"
    "n_steps (cri_optim (AgentSharedAC_init [[0]] probe_optim)) = 0"
    by (simp_all add: probe_agent_def probe_td3_def probe_sac_def probe_modsac_def
        AgentSharedAC_init_def probe_optim_def)
  from update_net_critic_step_counts [OF h,
      of "probe_trainer 0" 1 "0.005" "probe_trainer ()" "probe_trainer [0]"]
  show ?thesis using h unfolding n z by simp
qed

section \<open>\<^verbatim>\<open>update_net\<close> without a gradient step\<close>

lemma item_None [simp]: "item None = Inl AttributeError"
  by (simp add: item_def)

lemma item_Some [simp]: "item (Some v) = Inr v"
  by (simp add: item_def)



section \<open>Epsilon-greedy action selection\<close>

lemma sum_list_indicator:
  "sum_list (map (\<lambda>i. if i = a then (c i :: real) else 0) [0..<n]) = (if a < n then c a else 0)"
  by (induction n) auto

lemma prob_Randint_Return:
  "prob (Randint n Return) a = (if a < n then 1 / real n else 0)"
  using sum_list_indicator [of a "\<lambda>i. 1" n] by simp

lemma prob_DQN_select_action:
  "prob (DQN_select_action net self s) a
     = clamp 0 1 (explore_rate self) * (if a < action_dim self then 1 / real (action_dim self) else 0)
       + (1 - clamp 0 1 (explore_rate self))
         * (if a = argmax (q_values net (act self) [s] ! 0) then 1 else 0)"
  unfolding DQN_select_action_def
  by (simp add: prob_Randint_Return del: prob.simps(3))

lemma prob_Choice_Return:
  "prob (Choice n p Return) a = (if a < n then p ! a else 0)"
proof -
  have "(\<lambda>i. p ! i * (if i = a then 1 else 0)) = (\<lambda>i. if i = a then p ! i else 0)"
    by auto
  then show ?thesis using sum_list_indicator [of a "\<lambda>i. p ! i" n] by simp
qed

lemma prob_DoubleDQN_select_action:
  "prob (DoubleDQN_select_action net self s) a
     = clamp 0 1 (explore_rate self)
         * (if a < action_dim self then softmax (q_values net (act self) [s] ! 0) ! a else 0)
       + (1 - clamp 0 1 (explore_rate self))
         * (if a = argmax (q_values net (act self) [s] ! 0) then 1 else 0)"
  unfolding DoubleDQN_select_action_def Let_def
  by (simp add: prob_Choice_Return del: prob.simps(4))

lemma run_select_action_greedy:
  assumes "explore_rate self = 0" "0 \<le> u"
  shows "run (DQN_select_action net self s) u r = argmax (q_values net (act self) [s] ! 0)"
    and "run (DoubleDQN_select_action net self s) u r = argmax (q_values net (act self) [s] ! 0)"
  using assms by (simp_all add: DQN_select_action_def DoubleDQN_select_action_def Let_def)

text \<open>
  Claim C9 as stated fails for \<^verbatim>\<open>AgentDoubleDQN\<close>: with Q-values \<open>[0, 1]\<close> and
  \<open>explore_rate = 0.25\<close> it returns action 0 with probability
  \<open>0.25 * exp 0 / (exp 0 + exp 1)\<close>, not with the \<open>0.25 * 1 / 2\<close> of a uniform draw.
\<close>

theorem DoubleDQN_explores_by_softmax:
  "prob (DoubleDQN_select_action probe_qnet probe_dqn ()) 0 = 0.25 * (1 / (1 + exp 1))
   \<and> spec_epsilon_greedy (explore_rate probe_dqn) (action_dim probe_dqn)
        (q_values probe_qnet (act probe_dqn) [()] ! 0) 0 = 0.25 * (1 / 2)
   \<and> prob (DoubleDQN_select_action probe_qnet probe_dqn ()) 0
       \<noteq> spec_epsilon_greedy (explore_rate probe_dqn) (action_dim probe_dqn)
            (q_values probe_qnet (act probe_dqn) [()] ! 0) 0"
proof -
  have q: "q_values probe_qnet (act probe_dqn) [()] ! 0 = [0, 1]"
    by (simp add: probe_qnet_def)
  have a: "prob (DoubleDQN_select_action probe_qnet probe_dqn ()) 0 = 0.25 * (1 / (1 + exp 1))"
    unfolding prob_DoubleDQN_select_action q
    by (simp add: probe_dqn_def softmax_def clamp_def)
  have b: "spec_epsilon_greedy (explore_rate probe_dqn) (action_dim probe_dqn)
        (q_values probe_qnet (act probe_dqn) [()] ! 0) 0 = 0.25 * (1 / 2)"
    unfolding q by (simp add: spec_epsilon_greedy_def probe_dqn_def)
  have "exp (1::real) \<noteq> 1" by simp
  then have "(1::real) / (1 + exp 1) \<noteq> 1 / 2" by (simp add: field_simps)
  then show ?thesis unfolding a b by simp
qed

text \<open>
  Claim C9, amended.  With probability \<open>explore_rate\<close> (cut to \<open>[0, 1]\<close>)
  \<^verbatim>\<open>AgentDQN.select_action\<close> draws an action uniformly from the \<open>action_dim\<close> actions,
  and \<^verbatim>\<open>AgentDoubleDQN.select_action\<close> draws it from the softmax of the online critic's
  Q-values; otherwise both return the arg-max of the online critic's output.  With
  \<open>explore_rate = 0\<close> both return the arg-max for every state and every draw of the
  random generator.
\<close>

theorem select_action_epsilon_greedy:
  "prob (DQN_select_action net self s) a
     = clamp 0 1 (explore_rate self) * (if a < action_dim self then 1 / real (action_dim self) else 0)
       + (1 - clamp 0 1 (explore_rate self))
         * (if a = argmax (q_values net (act self) [s] ! 0) then 1 else 0)
   \<and> prob (DoubleDQN_select_action net self s) a
     = clamp 0 1 (explore_rate self)
         * (if a < action_dim self then softmax (q_values net (act self) [s] ! 0) ! a else 0)
       + (1 - clamp 0 1 (explore_rate self))
         * (if a = argmax (q_values net (act self) [s] ! 0) then 1 else 0)
   \<and> (explore_rate self = 0 \<and> 0 \<le> u \<longrightarrow>
        run (DQN_select_action net self s) u r = argmax (q_values net (act self) [s] ! 0)
      \<and> run (DoubleDQN_select_action net self s) u r = argmax (q_values net (act self) [s] ! 0)
      \<and> prob (DQN_select_action net self s) (argmax (q_values net (act self) [s] ! 0)) = 1
      \<and> prob (DoubleDQN_select_action net self s) (argmax (q_values net (act self) [s] ! 0)) = 1)"
  unfolding prob_DQN_select_action prob_DoubleDQN_select_action
  using run_select_action_greedy [of self u net s r]
  by (simp add: clamp_def)

theorem select_action_epsilon_greedy_witness:
  "explore_rate (probe_dqn\<lparr>explore_rate := 0\<rparr>) = 0 \<and> (0::real) \<le> 0.7
   \<and> run (DQN_select_action probe_qnet (probe_dqn\<lparr>explore_rate := 0\<rparr>) ()) 0.7 0 = 1
   \<and> run (DoubleDQN_select_action probe_qnet (probe_dqn\<lparr>explore_rate := 0\<rparr>) ()) 0.7 0 = 1
   \<and> prob (DQN_select_action probe_qnet probe_dqn ()) 0 = 0.125
   \<and> prob (DQN_select_action probe_qnet probe_dqn ()) 1 = 0.875"
proof -
  have q: "\<And>self. q_values probe_qnet (act self) [()] ! 0 = [0, 1]"
    by (simp add: probe_qnet_def)
  have am: "argmax [0, 1] = 1" by simp
  have h: "explore_rate (probe_dqn\<lparr>explore_rate := 0\<rparr>) = 0 \<and> (0::real) \<le> 0.7" by simp
  from select_action_epsilon_greedy [of probe_qnet "probe_dqn\<lparr>explore_rate := 0\<rparr>" "()" 0 "0.7" 0] h
  have r: "run (DQN_select_action probe_qnet (probe_dqn\<lparr>explore_rate := 0\<rparr>) ()) 0.7 0 = 1
      \<and> run (DoubleDQN_select_action probe_qnet (probe_dqn\<lparr>explore_rate := 0\<rparr>) ()) 0.7 0 = 1"
    unfolding q am by blast
  from select_action_epsilon_greedy [of probe_qnet probe_dqn "()" 0 "0.7" 0]
  have p0: "prob (DQN_select_action probe_qnet probe_dqn ()) 0 = 0.125"
    unfolding q am by (simp add: probe_dqn_def clamp_def)
  from select_action_epsilon_greedy [of probe_qnet probe_dqn "()" 1 "0.7" 0]
  have p1: "prob (DQN_select_action probe_qnet probe_dqn ()) 1 = 0.875"
    unfolding q am by (simp add: probe_dqn_def clamp_def)
  show ?thesis using h r p0 p1 by simp
qed


end
